theory Spec2Isabelle
  imports Complex_Main "HOL-Library.Sublist" "HOL-Library.AList"
begin

section \<open>Python text\<close>

text \<open>
  A Python \<open>str\<close> is a sequence of code points. It is modelled as a \<open>string\<close> whose
  \<open>char\<close>s are the code points 0..255 (ASCII and Latin-1), and the character classes
  below are the ones CPython uses on that range. \<open>x in s\<close> on two strings is
  \<^const>\<open>sublist\<close>.
\<close>

definition cp :: "char \<Rightarrow> nat" where
  "cp c = of_char c"

definition in_range :: "nat \<Rightarrow> nat \<Rightarrow> char \<Rightarrow> bool" where
  "in_range lo hi c = (lo \<le> cp c \<and> cp c \<le> hi)"

text \<open>\<open>str.isspace\<close>, which is also the class \<open>\s\<close> of \<open>re\<close> on a \<open>str\<close> pattern
  and the set \<open>str.strip()\<close> removes: TAB..CR, FS..US, space, NEL and NBSP.\<close>

definition is_space :: "char \<Rightarrow> bool" where
  "is_space c = (in_range 9 13 c \<or> in_range 28 32 c \<or> cp c = 133 \<or> cp c = 160)"

text \<open>\<open>str.lower\<close> on one code point: A-Z, and the Latin-1 capitals except the
  multiplication sign.\<close>

definition lower_char :: "char \<Rightarrow> char" where
  "lower_char c =
     (if in_range 65 90 c \<or> (in_range 192 222 c \<and> cp c \<noteq> 215)
      then char_of (cp c + 32) else c)"

definition lower :: "string \<Rightarrow> string" where
  "lower s = map lower_char s"

text \<open>The class \<open>[a-z0-9]\<close> under \<open>re.IGNORECASE\<close>.\<close>

definition is_ascii_alnum :: "char \<Rightarrow> bool" where
  "is_ascii_alnum c = (in_range 48 57 c \<or> in_range 65 90 c \<or> in_range 97 122 c)"

text \<open>The class \<open>\w\<close> of \<open>re\<close> on a \<open>str\<close> pattern: alphanumeric code points and
  the underscore.\<close>

definition is_word_char :: "char \<Rightarrow> bool" where
  "is_word_char c =
     (is_ascii_alnum c \<or> cp c = 95 \<or> cp c = 170 \<or> cp c = 178 \<or> cp c = 179
      \<or> cp c = 181 \<or> cp c = 185 \<or> cp c = 186 \<or> in_range 188 190 c
      \<or> in_range 192 214 c \<or> in_range 216 246 c \<or> in_range 248 255 c)"

definition lstrip :: "string \<Rightarrow> string" where
  "lstrip s = dropWhile is_space s"

definition rstrip :: "string \<Rightarrow> string" where
  "rstrip s = rev (dropWhile is_space (rev s))"

definition strip :: "string \<Rightarrow> string" where
  "strip s = lstrip (rstrip s)"

text \<open>\<open>s.split(sep)\<close> for a one-character separator: every occurrence cuts, so the
  result is never empty and may hold empty pieces.\<close>

fun split_on :: "char \<Rightarrow> string \<Rightarrow> string list" where
  "split_on sep [] = [[]]"
| "split_on sep (c # cs) =
     (if c = sep then [] # split_on sep cs
      else (case split_on sep cs of
              [] \<Rightarrow> [[c]]
            | p # ps \<Rightarrow> (c # p) # ps))"

text \<open>\<open>s.split()\<close> without a separator: the maximal runs of non-whitespace.\<close>

function split_ws :: "string \<Rightarrow> string list" where
  "split_ws s =
     (case dropWhile is_space s of
        [] \<Rightarrow> []
      | c # cs \<Rightarrow> takeWhile (\<lambda>x. \<not> is_space x) (c # cs)
                 # split_ws (dropWhile (\<lambda>x. \<not> is_space x) cs))"
  by pat_completeness auto
termination
proof (relation "measure length")
  show "wf (measure length)" by simp
next
  fix s :: string and c cs
  assume "dropWhile is_space s = c # cs"
  then have "length (c # cs) \<le> length s"
    by (metis length_dropWhile_le)
  moreover have "length (dropWhile (\<lambda>x. \<not> is_space x) cs) \<le> length cs"
    by (rule length_dropWhile_le)
  ultimately show "(dropWhile (\<lambda>x. \<not> is_space x) cs, s) \<in> measure length"
    by simp
qed

text \<open>\<open>re.sub(r'\s+', ' ', s)\<close>: every maximal run of whitespace becomes one space.\<close>

function collapse_ws :: "string \<Rightarrow> string" where
  "collapse_ws [] = []"
| "collapse_ws (c # cs) =
     (if is_space c then CHR '' '' # collapse_ws (dropWhile is_space cs)
      else c # collapse_ws cs)"
  by pat_completeness auto
termination
  by (relation "measure length") (auto simp: le_imp_less_Suc length_dropWhile_le)

text \<open>\<open>re.findall(r'\b\w+\b', s)\<close>: the maximal runs of word characters, in order.\<close>

function word_tokens :: "string \<Rightarrow> string list" where
  "word_tokens s =
     (case dropWhile (\<lambda>x. \<not> is_word_char x) s of
        [] \<Rightarrow> []
      | c # cs \<Rightarrow> takeWhile is_word_char (c # cs)
                 # word_tokens (dropWhile is_word_char cs))"
  by pat_completeness auto
termination
proof (relation "measure length")
  show "wf (measure length)" by simp
next
  fix s :: string and c cs
  assume "dropWhile (\<lambda>x. \<not> is_word_char x) s = c # cs"
  then have "length (c # cs) \<le> length s"
    by (metis length_dropWhile_le)
  moreover have "length (dropWhile is_word_char cs) \<le> length cs"
    by (rule length_dropWhile_le)
  ultimately show "(dropWhile is_word_char cs, s) \<in> measure length"
    by simp
qed

text \<open>\<open>xs[:n]\<close> for a Python integer \<open>n\<close>: a negative bound counts from the end.\<close>

definition slice_to :: "'a list \<Rightarrow> int \<Rightarrow> 'a list" where
  "slice_to xs n =
     (if 0 \<le> n then take (nat n) xs else take (nat (int (length xs) + n)) xs)"

section \<open>The text normalizer (apply\_on\_site.normalize\_text)\<close>

text \<open>The class \<open>[\s()/-]\<close> of the first substitution.\<close>

definition is_trailing_junk :: "char \<Rightarrow> bool" where
  "is_trailing_junk c =
     (is_space c \<or> c = CHR ''('' \<or> c = CHR '')'' \<or> c = CHR ''/'' \<or> c = CHR ''-'')"

text \<open>\<open>re.sub(r'[\s()/-]+$', '', s)\<close>: a match has to reach the end of the string
  (the position before a final newline is inside the run too, a newline being
  whitespace), so the substitution removes the maximal trailing run of the class.\<close>

definition drop_trailing_junk :: "string \<Rightarrow> string" where
  "drop_trailing_junk s = rev (dropWhile is_trailing_junk (rev s))"

text \<open>\<open>re.sub(r'^[^a-z0-9]+', '', s, flags=re.IGNORECASE)\<close>: the maximal leading
  run of characters that are no ASCII letter or digit.\<close>

definition drop_leading_non_alnum :: "string \<Rightarrow> string" where
  "drop_leading_non_alnum s = dropWhile (\<lambda>c. \<not> is_ascii_alnum c) s"

definition normalize_text :: "string \<Rightarrow> string" where
  "normalize_text text =
     (if text = [] then []
      else
        let text = lower text;
            text = strip (drop_trailing_junk text);
            text = strip (drop_leading_non_alnum text);
            text = strip (collapse_ws text)
        in text)"

section \<open>Title matching (run\_agent.title\_matches\_suggestion)\<close>

definition ignore_terms :: "string list" where
  "ignore_terms =
     [''werkstudent'', ''working'', ''student'', ''/'', ''m'', ''w'', ''d'', ''gn'', ''in'']"

definition EXCLUSION_KEYWORDS :: "string list" where
  "EXCLUSION_KEYWORDS =
     [''senior'', ''lead'', ''principal'', ''sr.'', ''director'',
      ''intern'', ''internship'', ''praktikant'', ''praktikum'',
      ''ausbildung'', ''auszubildende'']"

text \<open>\<open>suggestion_terms\<close> is a Python set; it is only tested for emptiness and
  iterated under \<open>all\<close>, so the list of its distinct members stands for it.\<close>

definition title_matches_suggestion :: "string \<Rightarrow> string \<Rightarrow> bool" where
  "title_matches_suggestion found_title suggested_title =
     (if found_title = [] \<or> suggested_title = [] then False
      else
        let found_lower = lower found_title;
            suggested_lower = lower suggested_title
        in if \<not> sublist ''werkstudent'' found_lower
              \<and> \<not> sublist ''working student'' found_lower then False
           else
             let suggestion_terms =
                   filter (\<lambda>t. t \<notin> set ignore_terms) (remdups (word_tokens suggested_lower))
             in if suggestion_terms = [] then True
                else list_all (\<lambda>term. sublist term found_lower) suggestion_terms)"

section \<open>Role suggestions (gemini\_client.suggest\_job\_titles\_from\_resume)\<close>

definition mentions_werkstudent :: "string \<Rightarrow> bool" where
  "mentions_werkstudent title =
     (sublist ''werkstudent'' (lower title) \<or> sublist ''working student'' (lower title))"

text \<open>The list comprehension of the parser, for either separator.\<close>

definition parse_titles :: "char \<Rightarrow> string \<Rightarrow> string list" where
  "parse_titles sep response_text =
     map strip (filter (\<lambda>title. strip title \<noteq> [] \<and> mentions_werkstudent title)
                  (split_on sep response_text))"

text \<open>
  \<open>generate_text\<close> is the language service: it answers a prompt with a text or with
  \<open>None\<close>. The prompt is built from the resume and the number of suggestions; its
  fixed wording is the parameter \<open>prompt_of\<close>.
\<close>

definition suggest_job_titles_from_resume ::
  "(string \<Rightarrow> int \<Rightarrow> string) \<Rightarrow> (string \<Rightarrow> string option) \<Rightarrow> string \<Rightarrow> int \<Rightarrow> string list" where
  "suggest_job_titles_from_resume prompt_of generate_text resume_text num_suggestions =
     (if resume_text = [] then []
      else
        case generate_text (prompt_of resume_text num_suggestions) of
          None \<Rightarrow> []
        | Some response_text \<Rightarrow>
            if response_text = [] then []
            else
              let suggested_titles = parse_titles CHR '','' response_text
              in if suggested_titles = [] then
                   (let suggested_titles = parse_titles (CHR 0x0A) response_text
                    in if suggested_titles \<noteq> [] then slice_to suggested_titles num_suggestions
                       else [])
                 else slice_to suggested_titles num_suggestions)"

section \<open>Python values\<close>

text \<open>
  Exceptions are values: a call that can raise returns \<open>exn + 'a\<close>, with \<open>Inl\<close> the
  exception. \<open>PlaywrightTimeoutError\<close> is the one class the source names in its handlers;
  every other exception is an \<open>Error\<close> with its message, and both are caught by
  \<open>except Exception\<close>.
\<close>

datatype exn = PlaywrightTimeoutError | Error string | UnboundLocalError string

text \<open>A value that is a \<open>str\<close> or \<open>None\<close> is a \<open>string option\<close>; \<open>truthy\<close> is its
  truth value in a condition (\<open>None\<close> and the empty string are false).\<close>

definition truthy :: "string option \<Rightarrow> bool" where
  "truthy v = (case v of None \<Rightarrow> False | Some s \<Rightarrow> s \<noteq> [])"

text \<open>A \<open>dict\<close> with string keys whose values are strings or \<open>None\<close>, in insertion
  order. \<open>d.get(k)\<close> is \<open>None\<close> for a missing key and for a key bound to \<open>None\<close>.\<close>

type_synonym pydict = "(string \<times> string option) list"

definition dict_get :: "pydict \<Rightarrow> string \<Rightarrow> string option" where
  "dict_get d k = (case map_of d k of None \<Rightarrow> None | Some v \<Rightarrow> v)"

text \<open>\<open>d.get(k, default)\<close>: the default only stands in for a missing key.\<close>

definition dict_get_default :: "pydict \<Rightarrow> string \<Rightarrow> string \<Rightarrow> string option" where
  "dict_get_default d k dflt = (case map_of d k of None \<Rightarrow> Some dflt | Some v \<Rightarrow> v)"

definition dict_set :: "pydict \<Rightarrow> string \<Rightarrow> string option \<Rightarrow> pydict" where
  "dict_set d k v = AList.update k v d"

definition dict_update :: "pydict \<Rightarrow> pydict \<Rightarrow> pydict" where
  "dict_update d e = fold (\<lambda>kv acc. AList.update (fst kv) (snd kv) acc) e d"

section \<open>More string functions of the application engine\<close>

text \<open>\<open>s.split(sep)\<close> for a separator of any positive length, scanning from the
  left. The source only calls it with constant, non-empty separators.\<close>

function split_str_from :: "string \<Rightarrow> string \<Rightarrow> string \<Rightarrow> string list" where
  "split_str_from sep acc [] = [rev acc]"
| "split_str_from sep acc (c # cs) =
     (if prefix sep (c # cs)
      then rev acc # split_str_from sep [] (drop (length sep - 1) cs)
      else split_str_from sep (c # acc) cs)"
  by pat_completeness auto
termination
  by (relation "measure (\<lambda>(sep, acc, s). length s)") (auto simp: le_imp_less_Suc)

definition split_str :: "string \<Rightarrow> string \<Rightarrow> string list" where
  "split_str sep s = split_str_from sep [] s"

text \<open>\<open>xs[0]\<close> and \<open>xs[-1]\<close> on the result of a split, which is never empty.\<close>

definition first_piece :: "string list \<Rightarrow> string" where
  "first_piece xs = (case xs of [] \<Rightarrow> [] | x # _ \<Rightarrow> x)"

definition last_piece :: "string list \<Rightarrow> string" where
  "last_piece xs = (case rev xs of [] \<Rightarrow> [] | x # _ \<Rightarrow> x)"

text \<open>Decimal digits of a natural number, as \<open>str(n)\<close> and \<open>f'{n}'\<close> print them.\<close>

definition digit_char :: "nat \<Rightarrow> char" where
  "digit_char n = char_of (48 + n mod 10)"

function show_nat :: "nat \<Rightarrow> string" where
  "show_nat n = (if n < 10 then [digit_char n] else show_nat (n div 10) @ [digit_char n])"
  by pat_completeness auto
termination
  by (relation "measure id") auto

text \<open>The \<open>%d\<close> and \<open>%m\<close> fields of \<open>strftime\<close>: two digits, zero-padded.\<close>

definition pad2 :: "nat \<Rightarrow> string" where
  "pad2 n = (if n < 10 then CHR ''0'' # show_nat n else show_nat n)"

section \<open>The scraping loop (run\_agent, main block)\<close>

text \<open>
  A job source is one of the two scrapers. Its \<open>search_jobs\<close> returns a list of job
  cards or raises; what it finds on a details page is \<open>description_of\<close>. Both depend on
  the moment of the call, which is the number of calls made so far (\<open>clock\<close>): the same
  query may be answered differently later in the run.
\<close>

record job_source =
  search_jobs :: "nat \<Rightarrow> string \<Rightarrow> string \<Rightarrow> int \<Rightarrow> exn + pydict list"
  description_of :: "nat \<Rightarrow> string \<Rightarrow> exn + string option"

text \<open>Both scrapers start \<open>get_job_details\<close> with
  \<open>details = {"url": job_url, "description": None}\<close>, only ever assign
  \<open>details["description"]\<close>, and return \<open>details\<close>.\<close>

definition get_job_details :: "job_source \<Rightarrow> nat \<Rightarrow> string \<Rightarrow> exn + pydict" where
  "get_job_details src t job_url =
     (case description_of src t job_url of
        Inl e \<Rightarrow> Inl e
      | Inr d \<Rightarrow> Inr [(''url'', Some job_url), (''description'', d)])"

record scrape_state =
  all_found_jobs :: "pydict list"
  processed_job_urls :: "string set"
  clock :: nat

definition tick :: "scrape_state \<Rightarrow> scrape_state" where
  "tick s = s\<lparr>clock := Suc (clock s)\<rparr>"

text \<open>The filter of both loops:
  \<open>title_matches_suggestion(job_title, suggested_role) and
   not any(excl_kw in job_title.lower() for excl_kw in EXCLUSION_KEYWORDS)\<close>.
  A title that is \<open>None\<close> fails the first test of \<open>title_matches_suggestion\<close>.\<close>

definition passes_filter :: "string option \<Rightarrow> string \<Rightarrow> bool" where
  "passes_filter job_title suggested_role =
     (case job_title of
        None \<Rightarrow> False
      | Some t \<Rightarrow> title_matches_suggestion t suggested_role
                  \<and> \<not> list_ex (\<lambda>excl_kw. sublist excl_kw (lower t)) EXCLUSION_KEYWORDS)"

definition record_job :: "pydict \<Rightarrow> string \<Rightarrow> scrape_state \<Rightarrow> scrape_state" where
  "record_job job_card job_url s =
     s\<lparr>all_found_jobs := all_found_jobs s @ [job_card],
       processed_job_urls := insert job_url (processed_job_urls s)\<rparr>"

text \<open>One iteration of the loop over the LinkedIn cards. The result says whether the
  iteration raised; an exception leaves the loop with the lists as they are.\<close>

definition linkedin_card ::
  "job_source \<Rightarrow> string \<Rightarrow> pydict \<Rightarrow> scrape_state \<Rightarrow> exn option \<times> scrape_state" where
  "linkedin_card src suggested_role job_card s =
     (case dict_get job_card ''url'' of
        None \<Rightarrow> (None, s)
      | Some job_url \<Rightarrow>
          if job_url = [] \<or> job_url \<in> processed_job_urls s then (None, s)
          else if passes_filter (dict_get_default job_card ''title'' []) suggested_role then
            (case get_job_details src (clock s) job_url of
               Inl e \<Rightarrow> (Some e, tick s)
             | Inr details \<Rightarrow>
                 let job_card =
                       (if details \<noteq> [] then
                          (let job_card = dict_update job_card details
                           in if \<not> truthy (dict_get details ''description'')
                              then dict_set job_card ''description''
                                     (Some ''Description not fetched/found.'')
                              else job_card)
                        else dict_set job_card ''description''
                               (Some ''Description fetching failed.''))
                 in (None, record_job job_card job_url (tick s)))
          else (None, s))"

definition stepstone_card ::
  "job_source \<Rightarrow> string \<Rightarrow> pydict \<Rightarrow> scrape_state \<Rightarrow> exn option \<times> scrape_state" where
  "stepstone_card src suggested_role job_card s =
     (case dict_get job_card ''url'' of
        None \<Rightarrow> (None, s)
      | Some job_url \<Rightarrow>
          if job_url = [] \<or> job_url \<in> processed_job_urls s then (None, s)
          else if passes_filter (dict_get_default job_card ''title'' []) suggested_role then
            (case get_job_details src (clock s) job_url of
               Inl e \<Rightarrow> (Some e, tick s)
             | Inr details \<Rightarrow>
                 let job_card =
                       (if details \<noteq> []
                           \<and> dict_get details ''description'' \<noteq> Some ''Description not found.''
                        then dict_update job_card details
                        else dict_set job_card ''description''
                               (Some ''Description not found or fetching failed.''))
                 in (None, record_job job_card job_url (tick s)))
          else (None, s))"

text \<open>The \<open>for job_card in ...\<close> loops, inside their \<open>try\<close>.\<close>

fun for_cards ::
  "(pydict \<Rightarrow> scrape_state \<Rightarrow> exn option \<times> scrape_state) \<Rightarrow> pydict list \<Rightarrow> scrape_state
   \<Rightarrow> scrape_state" where
  "for_cards body [] s = s"
| "for_cards body (job_card # rest) s =
     (case body job_card s of
        (None, s') \<Rightarrow> for_cards body rest s'
      | (Some e, s') \<Rightarrow> s')"

definition search_block ::
  "(job_source \<Rightarrow> string \<Rightarrow> pydict \<Rightarrow> scrape_state \<Rightarrow> exn option \<times> scrape_state)
   \<Rightarrow> job_source \<Rightarrow> int \<Rightarrow> string \<Rightarrow> string \<Rightarrow> scrape_state \<Rightarrow> scrape_state" where
  "search_block card_body scraper max_results location suggested_role s =
     (case search_jobs scraper (clock s) suggested_role location max_results of
        Inl e \<Rightarrow> tick s
      | Inr jobs \<Rightarrow>
          if jobs \<noteq> [] then for_cards (card_body scraper suggested_role) jobs (tick s)
          else tick s)"

text \<open>One role in one location: the LinkedIn block, then the StepStone block. The counter
  \<open>jobs_found_this_combo\<close> is only logged and is left out.\<close>

definition search_combo ::
  "job_source \<Rightarrow> job_source \<Rightarrow> int \<Rightarrow> string \<Rightarrow> string \<Rightarrow> scrape_state \<Rightarrow> scrape_state" where
  "search_combo linkedin_scraper stepstone_scraper max_results location suggested_role s =
     search_block stepstone_card stepstone_scraper max_results location suggested_role
       (search_block linkedin_card linkedin_scraper max_results location suggested_role s)"

definition scrape_from ::
  "job_source \<Rightarrow> job_source \<Rightarrow> int \<Rightarrow> string list \<Rightarrow> string list \<Rightarrow> scrape_state
   \<Rightarrow> scrape_state" where
  "scrape_from linkedin_scraper stepstone_scraper max_results target_locations roles s =
     fold (\<lambda>location.
             fold (search_combo linkedin_scraper stepstone_scraper max_results location) roles)
          target_locations s"

definition scrape ::
  "job_source \<Rightarrow> job_source \<Rightarrow> int \<Rightarrow> string list \<Rightarrow> string list \<Rightarrow> scrape_state" where
  "scrape linkedin_scraper stepstone_scraper max_results target_locations roles =
     scrape_from linkedin_scraper stepstone_scraper max_results target_locations roles
       \<lparr>all_found_jobs = [], processed_job_urls = {}, clock = 0\<rparr>"

definition url_of :: "pydict \<Rightarrow> string option" where
  "url_of job_card = dict_get job_card ''url''"

section \<open>The browser as the program sees it\<close>

text \<open>
  The application engine drives a browser through Playwright. A locator is built from
  a page and selectors without touching the page; every other call is an event, and the
  world decides how it ends: with a value, or with an exception. The world is an
  arbitrary function of the call and of all the events before it, so a page may change
  under the program's actions or by itself. Timeouts are arguments the world knows and
  the model omits; \<open>time.sleep\<close> and logging have no effect on any value and are left
  out, except that a call made to build a log message is made in the model too. Starting
  and stopping Playwright itself (\<open>with sync_playwright()\<close>) is not an event.
\<close>

type_synonym page = nat

datatype locator =
    Locator page string
  | Locator_text page string string
  | Frame_locator page string string
  | First locator
  | Nth locator nat
  | Sub locator string

text \<open>\<open>element.page\<close>.\<close>

primrec page_of_locator :: "locator \<Rightarrow> page" where
  "page_of_locator (Locator p sel) = p"
| "page_of_locator (Locator_text p tag pattern) = p"
| "page_of_locator (Frame_locator p frame sel) = p"
| "page_of_locator (First l) = page_of_locator l"
| "page_of_locator (Nth l n) = page_of_locator l"
| "page_of_locator (Sub l sel) = page_of_locator l"

datatype select_by = By_value string | By_label string | By_index nat

datatype event =
    Launch_persistent_context string bool
  | Launch bool
  | New_context
  | New_page
  | Goto page string
  | Wait_for_load_state page string
  | Close_page page
  | Expect_page
  | Context_pages
  | Close_context
  | Close_browser
  | Is_visible locator
  | Is_enabled locator
  | Is_checked locator
  | Text_content locator
  | Get_attribute locator string
  | All_of locator
  | Evaluate locator string
  | Scroll_into_view_if_needed locator
  | Click locator
  | Fill locator string
  | Select_option locator select_by
  | Set_input_files locator string
  | Check locator

record date =
  year :: int
  month :: int
  day :: int

text \<open>
  The world. The first five fields answer the browser calls by the type of their
  result (\<open>done_of\<close> is for calls that return nothing: \<open>None\<close> means the call completed).
  The remaining fields are the calls that cannot raise: \<open>datetime.date.today()\<close>,
  \<open>os.path.exists\<close>, the property \<open>page.url\<close>, \<open>random.randint\<close>, and the two placeholder
  helpers, which catch their own exceptions. \<open>can_locate\<close> says whether building a
  locator succeeds (the source guards these constructions with \<open>try\<close>).
\<close>

record world =
  bool_of :: "event list \<Rightarrow> event \<Rightarrow> exn + bool"
  text_of :: "event list \<Rightarrow> event \<Rightarrow> exn + string option"
  count_of :: "event list \<Rightarrow> event \<Rightarrow> exn + nat"
  page_of :: "event list \<Rightarrow> event \<Rightarrow> exn + page"
  done_of :: "event list \<Rightarrow> event \<Rightarrow> exn option"
  can_locate :: "locator \<Rightarrow> bool"
  date_today :: date
  path_exists :: "string \<Rightarrow> bool"
  page_url :: "event list \<Rightarrow> page \<Rightarrow> string"
  randint :: "event list \<Rightarrow> nat"
  placeholder_doc_text :: "event list \<Rightarrow> string \<Rightarrow> string \<Rightarrow> string option"
  placeholder_pdf :: "event list \<Rightarrow> string \<Rightarrow> string \<Rightarrow> bool"

text \<open>
  The state of a run: the events so far and the local variables that outlive a
  \<open>try\<close> block (\<open>filled_count\<close> of \<open>fill_application_form\<close>; \<open>context\<close>, \<open>browser\<close>,
  \<open>page\<close> and \<open>final_url\<close> of \<open>apply_to_job\<close>, the first two as flags that say whether
  the variable holds an object).
\<close>

record pstate =
  trace :: "event list"
  filled_count :: int
  context_set :: bool
  browser_set :: bool
  cur_page :: "page option"
  final_url :: "string option"

definition start :: pstate where
  "start = \<lparr>trace = [], filled_count = 0, context_set = False, browser_set = False,
            cur_page = None, final_url = None\<rparr>"

type_synonym 'a prog = "pstate \<Rightarrow> (exn + 'a) \<times> pstate"

definition ret :: "'a \<Rightarrow> 'a prog" where
  "ret x = (\<lambda>s. (Inr x, s))"

definition raise :: "exn \<Rightarrow> 'a prog" where
  "raise e = (\<lambda>s. (Inl e, s))"

definition bnd :: "'a prog \<Rightarrow> ('a \<Rightarrow> 'b prog) \<Rightarrow> 'b prog" where
  "bnd m f = (\<lambda>s. case m s of (Inl e, s') \<Rightarrow> (Inl e, s') | (Inr x, s') \<Rightarrow> f x s')"

definition andthen :: "unit prog \<Rightarrow> 'b prog \<Rightarrow> 'b prog" where
  "andthen m n = bnd m (\<lambda>_. n)"

text \<open>\<open>try: m except Exception as e: h\<close>. A handler for \<open>PlaywrightTimeoutError\<close>
  in front of one for \<open>Exception\<close> only chooses the log message.\<close>

definition try_except :: "'a prog \<Rightarrow> (exn \<Rightarrow> 'a prog) \<Rightarrow> 'a prog" where
  "try_except m h = (\<lambda>s. case m s of (Inl e, s') \<Rightarrow> h e s' | (Inr x, s') \<Rightarrow> (Inr x, s'))"

text \<open>\<open>try: m except PlaywrightTimeoutError: h\<close> with no other handler.\<close>

definition try_except_timeout :: "'a prog \<Rightarrow> 'a prog \<Rightarrow> 'a prog" where
  "try_except_timeout m h =
     (\<lambda>s. case m s of
             (Inl PlaywrightTimeoutError, s') \<Rightarrow> h s'
           | (Inl e, s') \<Rightarrow> (Inl e, s')
           | (Inr x, s') \<Rightarrow> (Inr x, s'))"

text \<open>A \<open>try\<close> block whose handlers only log.\<close>

definition attempt :: "unit prog \<Rightarrow> unit prog" where
  "attempt m = try_except m (\<lambda>e. ret ())"

definition log_event :: "event \<Rightarrow> pstate \<Rightarrow> pstate" where
  "log_event ev s = s\<lparr>trace := trace s @ [ev]\<rparr>"

definition ask_bool :: "world \<Rightarrow> event \<Rightarrow> bool prog" where
  "ask_bool w ev = (\<lambda>s. (bool_of w (trace s) ev, log_event ev s))"

definition ask_text :: "world \<Rightarrow> event \<Rightarrow> string option prog" where
  "ask_text w ev = (\<lambda>s. (text_of w (trace s) ev, log_event ev s))"

definition ask_count :: "world \<Rightarrow> event \<Rightarrow> nat prog" where
  "ask_count w ev = (\<lambda>s. (count_of w (trace s) ev, log_event ev s))"

definition ask_page :: "world \<Rightarrow> event \<Rightarrow> page prog" where
  "ask_page w ev = (\<lambda>s. (page_of w (trace s) ev, log_event ev s))"

definition act :: "world \<Rightarrow> event \<Rightarrow> unit prog" where
  "act w ev =
     (\<lambda>s. (case done_of w (trace s) ev of None \<Rightarrow> Inr () | Some e \<Rightarrow> Inl e, log_event ev s))"

text \<open>Reading the state, for the calls that cannot raise.\<close>

definition observe :: "(pstate \<Rightarrow> 'a) \<Rightarrow> 'a prog" where
  "observe f = (\<lambda>s. (Inr (f s), s))"

definition modify :: "(pstate \<Rightarrow> pstate) \<Rightarrow> unit prog" where
  "modify f = (\<lambda>s. (Inr (), f s))"

definition is_visible :: "world \<Rightarrow> locator \<Rightarrow> bool prog" where
  "is_visible w l = ask_bool w (Is_visible l)"

definition is_enabled :: "world \<Rightarrow> locator \<Rightarrow> bool prog" where
  "is_enabled w l = ask_bool w (Is_enabled l)"

definition is_checked :: "world \<Rightarrow> locator \<Rightarrow> bool prog" where
  "is_checked w l = ask_bool w (Is_checked l)"

definition text_content :: "world \<Rightarrow> locator \<Rightarrow> string option prog" where
  "text_content w l = ask_text w (Text_content l)"

definition get_attribute :: "world \<Rightarrow> locator \<Rightarrow> string \<Rightarrow> string option prog" where
  "get_attribute w l name = ask_text w (Get_attribute l name)"

text \<open>\<open>locator.all()\<close>: one locator for each element that matches now.\<close>

definition all_of :: "world \<Rightarrow> locator \<Rightarrow> locator list prog" where
  "all_of w l = bnd (ask_count w (All_of l)) (\<lambda>n. ret (map (Nth l) [0..<n]))"

section \<open>Mandatory-field detection (apply\_on\_site.is\_field\_mandatory)\<close>

text \<open>\<open>label_text and '*' in label_text\<close>.\<close>

definition has_asterisk :: "string option \<Rightarrow> bool" where
  "has_asterisk label_text = (truthy label_text \<and> sublist ''*'' (case label_text of None \<Rightarrow> [] | Some t \<Rightarrow> t))"

definition label_for :: "string \<Rightarrow> string" where
  \<open>label_for key = ''label[for="'' @ key @ ''"]''\<close>

text \<open>\<open>if l.is_visible(...): text = l.text_content(...); if text and '*' in text\<close>:
  whether this check ends in \<open>return True\<close>.\<close>

definition visible_asterisk :: "world \<Rightarrow> locator \<Rightarrow> bool prog" where
  "visible_asterisk w l =
     bnd (is_visible w l) (\<lambda>visible.
       if visible then bnd (text_content w l) (\<lambda>label_text. ret (has_asterisk label_text))
       else ret False)"

text \<open>The block under \<open>if input_id:\<close>. Its result, and that of the next two blocks,
  is whether the function returns \<open>True\<close> there; their own handlers catch everything.\<close>

definition id_label_check :: "world \<Rightarrow> locator \<Rightarrow> string \<Rightarrow> bool prog" where
  "id_label_check w element input_id =
     (let label = First (Locator (page_of_locator element) (label_for input_id))
      in try_except
           (bnd (visible_asterisk w label) (\<lambda>found.
              if found then ret True
              else
                let sibling_span =
                      First (Locator (page_of_locator element) (label_for input_id @ '' + span''))
                in visible_asterisk w sibling_span))
           (\<lambda>e. ret False))"

text \<open>The block under \<open>if input_name:\<close>: the label found by name is only tested for
  visibility, the asterisk is looked for in its sibling.\<close>

definition name_label_check :: "world \<Rightarrow> locator \<Rightarrow> string \<Rightarrow> bool prog" where
  "name_label_check w element input_name =
     (let label_for_name = First (Locator (page_of_locator element) (label_for input_name))
      in try_except
           (bnd (is_visible w label_for_name) (\<lambda>visible.
              if visible then
                (let sibling_span =
                       First (Locator (page_of_locator element)
                                (label_for input_name @ '' + span''))
                 in visible_asterisk w sibling_span)
              else ret False))
           (\<lambda>e. ret False))"

text \<open>The ancestor-label block. The message logged before \<open>return True\<close> names the field
  by \<open>input_id or element.get_attribute('name')\<close>, a call inside the \<open>try\<close>.\<close>

definition ancestor_label_check :: "world \<Rightarrow> locator \<Rightarrow> string option \<Rightarrow> bool prog" where
  "ancestor_label_check w element input_id =
     (let parent_label = First (Sub element ''xpath=./ancestor::label'')
      in try_except
           (bnd (visible_asterisk w parent_label) (\<lambda>found.
              if found then
                bnd (if truthy input_id then ret input_id else get_attribute w element ''name'')
                    (\<lambda>shown. ret True)
              else ret False))
           (\<lambda>e. ret False))"

text \<open>What follows the assignment of \<open>input_id\<close> inside the outer \<open>try\<close>.\<close>

definition after_input_id :: "world \<Rightarrow> locator \<Rightarrow> string option \<Rightarrow> bool prog" where
  "after_input_id w element input_id =
     bnd (case input_id of
            None \<Rightarrow> ret False
          | Some i \<Rightarrow> if i = [] then ret False else id_label_check w element i) (\<lambda>by_id.
       if by_id then ret True
       else
         bnd (get_attribute w element ''name'') (\<lambda>input_name.
           bnd (case input_name of
                  None \<Rightarrow> ret False
                | Some n \<Rightarrow> if n = [] then ret False else name_label_check w element n)
               (\<lambda>by_name.
             if by_name then ret True
             else
               bnd (if truthy input_id then ret input_id else get_attribute w element ''name'')
                   (\<lambda>shown. ancestor_label_check w element input_id))))"

text \<open>How the outer \<open>try\<close> statement is left: by \<open>return True\<close>, or at its end (also
  after an exception, which the handler only logs) with \<open>input_id\<close> assigned or not.\<close>

datatype try_exit = Returned_True | Fell_through_unbound | Fell_through "string option"

definition mandatory_try :: "world \<Rightarrow> locator \<Rightarrow> try_exit prog" where
  "mandatory_try w element =
     try_except
       (bnd (get_attribute w element ''required'') (\<lambda>required.
          if truthy required then ret Returned_True
          else
            bnd (get_attribute w element ''aria-required'') (\<lambda>aria_required.
              if aria_required = Some ''true'' then ret Returned_True
              else
                bnd (get_attribute w element ''id'') (\<lambda>input_id.
                  try_except
                    (bnd (after_input_id w element input_id) (\<lambda>mandatory.
                       ret (if mandatory then Returned_True else Fell_through input_id)))
                    (\<lambda>e. ret (Fell_through input_id))))))
       (\<lambda>e. ret Fell_through_unbound)"

text \<open>After the \<open>try\<close> statement the function logs
  \<open>element.get_attribute('name') or input_id\<close> and returns \<open>False\<close>.\<close>

definition is_field_mandatory :: "world \<Rightarrow> locator \<Rightarrow> bool prog" where
  "is_field_mandatory w element =
     bnd (mandatory_try w element) (\<lambda>exit.
       case exit of
         Returned_True \<Rightarrow> ret True
       | Fell_through input_id \<Rightarrow>
           bnd (get_attribute w element ''name'') (\<lambda>name. ret False)
       | Fell_through_unbound \<Rightarrow>
           bnd (get_attribute w element ''name'') (\<lambda>name.
             if truthy name then ret False else raise (UnboundLocalError ''input_id'')))"

section \<open>The form filler (apply\_on\_site.fill\_application\_form)\<close>

subsection \<open>Selectors\<close>

definition sel_first_name :: string where
  \<open>sel_first_name = ''input[name*="first"][name*="name"], input#firstname, input[data-testid*="first-name"], input[name="firstName"], input[name="vorname"]''\<close>

definition sel_last_name :: string where
  \<open>sel_last_name = ''input[name*="last"][name*="name"], input#lastname, input[data-testid*="last-name"], input[name="lastName"], input[name="nachname"]''\<close>

definition sel_email :: string where
  \<open>sel_email = ''input[type="email"], input[name*="email"], input#email''\<close>

definition sel_phone :: string where
  \<open>sel_phone = ''input[type="tel"], input[name*="phone"], input#phone, input[name="telefon"]''\<close>

definition sel_resume_upload :: string where
  \<open>sel_resume_upload = ''input[name="cv[cv]"], input[type="file"][name*="resume"], input[type="file"][aria-label*="resume"], input[type="file"][data-testid*="resume"], input#resume-upload-input, input[data-testid="resume-upload-input"], input[name="cv"], input[name="lebenslauf"], button:has-text("Upload Resume"), button:has-text("Upload CV"), div:has-text("Upload Resume") input[type="file"], div:has-text("Upload CV") input[type="file"]''\<close>

definition sel_cover_letter_upload :: string where
  \<open>sel_cover_letter_upload = ''input[type="file"][name*="cover"], input[type="file"][aria-label*="cover"], input[data-testid*="cover-letter"], input[name="coverLetter"], input[name="anschreiben"], button:has-text("Upload Cover Letter")''\<close>

definition sel_cover_letter_text :: string where
  \<open>sel_cover_letter_text = ''textarea[name*="cover"], textarea[aria-label*="cover"], textarea[name="coverLetter"], textarea[name="anschreiben"]''\<close>

definition sel_submit_button :: string where
  \<open>sel_submit_button = ''button[type="submit"], button:has-text("Submit"), button:has-text("Apply"), button:has-text("Bewerbung abschicken"), button:has-text("Jetzt bewerben"), button.sc-brKeYL.dDIeSv''\<close>

definition sel_salutation :: string where
  \<open>sel_salutation = ''select[name*="salutation"], select[name="title"], select[id*="salutation"], select[name="anrede"]''\<close>

definition sel_start_date :: string where
  \<open>sel_start_date = ''input[name="questions[cf_224307]"], input[name*="start_date"], input[name*="earliest"], input[name*="available"], input[id*="start_date"], input[placeholder*="Start date"], input[placeholder*="Verf'' @ [CHR 0xFC] @ ''gbar ab"]''\<close>

definition sel_salary_expectation :: string where
  \<open>sel_salary_expectation = ''input[name="questions[cf_224302]"], input[name*="salary"], input[name*="compensation"], input[id*="salary"], input[placeholder*="Salary"], input[placeholder*="Gehaltsvorstellung"]''\<close>

definition sel_source :: string where
  \<open>sel_source = ''select[name*="source"], select[name*="found"], select[name*="referral"], select[id*="source"], select:near(:text("How did you hear"))''\<close>

definition sel_consent_checkbox :: string where
  \<open>sel_consent_checkbox = ''button[role="checkbox"][id="finish[extended_data_retention]"], input[type="checkbox"][name*="privacy"], input[type="checkbox"][name*="datenschutz"], input[type="checkbox"][id*="privacy"], input[type="checkbox"][id*="consent"], input[type="checkbox"]:near(:text("I hereby agree"))''\<close>

definition FORM_SELECTORS :: "(string \<times> string) list" where
  "FORM_SELECTORS =
     [(''first_name'', sel_first_name), (''last_name'', sel_last_name),
      (''email'', sel_email), (''phone'', sel_phone),
      (''resume_upload'', sel_resume_upload),
      (''cover_letter_upload'', sel_cover_letter_upload),
      (''cover_letter_text'', sel_cover_letter_text),
      (''submit_button'', sel_submit_button),
      (''salutation'', sel_salutation), (''start_date'', sel_start_date),
      (''salary_expectation'', sel_salary_expectation), (''source'', sel_source),
      (''consent_checkbox'', sel_consent_checkbox)]"

text \<open>\<open>FORM_SELECTORS[key]\<close> and \<open>FORM_SELECTORS.get(key, "")\<close>; every key the source
  uses is in the table.\<close>

definition selector_for :: "string \<Rightarrow> string" where
  "selector_for key = (case map_of FORM_SELECTORS key of None \<Rightarrow> [] | Some sel \<Rightarrow> sel)"

text \<open>\<open>page.locator(FORM_SELECTORS[key]).first\<close>.\<close>

definition field_locator :: "page \<Rightarrow> string \<Rightarrow> locator" where
  "field_locator page key = First (Locator page (selector_for key))"

subsection \<open>Dates\<close>

definition is_leap :: "int \<Rightarrow> bool" where
  "is_leap y = (y mod 4 = 0 \<and> (y mod 100 \<noteq> 0 \<or> y mod 400 = 0))"

definition days_in_month :: "int \<Rightarrow> int \<Rightarrow> int" where
  "days_in_month y m =
     (if m = 2 then (if is_leap y then 29 else 28)
      else if m = 4 \<or> m = 6 \<or> m = 9 \<or> m = 11 then 30 else 31)"

text \<open>\<open>d + relativedelta(months=1)\<close>: the month moves on, the day is cut to the length
  of the new month, and a year beyond \<open>datetime.MAXYEAR\<close> raises \<open>ValueError\<close>.\<close>

definition plus_one_month :: "date \<Rightarrow> exn + date" where
  "plus_one_month d =
     (let m = month d + 1;
          y = (if m > 12 then year d + 1 else year d);
          m = (if m > 12 then m - 12 else m)
      in if y > 9999 then Inl (Error ''ValueError: year is out of range'')
         else Inr \<lparr>year = y, month = m, day = min (days_in_month y m) (day d)\<rparr>)"

text \<open>\<open>strftime("%d.%m.%Y")\<close>; the year is printed with the digits it has, which are four
  for every date from the year 1000 on.\<close>

definition strftime_dmy :: "date \<Rightarrow> string" where
  "strftime_dmy d =
     pad2 (nat (day d)) @ ''.'' @ pad2 (nat (month d)) @ ''.'' @ show_nat (nat (year d))"

text \<open>The three assignments that compute \<open>target_start_date\<close> from \<open>today\<close>.\<close>

definition target_start_date :: "date \<Rightarrow> exn + date" where
  "target_start_date today =
     (let first_day_current_month = today\<lparr>day := 1\<rparr>
      in case plus_one_month first_day_current_month of
           Inl e \<Rightarrow> Inl e
         | Inr first_day_next_month \<Rightarrow> plus_one_month first_day_next_month)"

subsection \<open>The blocks of the form pass\<close>

definition count_up :: "unit prog" where
  "count_up = modify (\<lambda>s. s\<lparr>filled_count := filled_count s + 1\<rparr>)"

text \<open>Statements one after the other.\<close>

primrec in_order :: "unit prog list \<Rightarrow> unit prog" where
  "in_order [] = ret ()"
| "in_order (m # ms) = andthen m (in_order ms)"

definition salutation_matches :: "string \<Rightarrow> string \<Rightarrow> bool" where
  "salutation_matches normalized_option_text normalized_preference =
     (normalized_option_text = normalized_preference
      \<or> (normalized_preference = ''herr'' \<and> normalized_option_text \<in> set [''mr.'', ''mr''])
      \<or> (normalized_preference = ''frau''
          \<and> normalized_option_text \<in> set [''ms.'', ''ms'', ''mrs.'', ''mrs'']))"

text \<open>The loop over the options of the salutation dropdown; the result is
  \<open>found_match\<close>. An exception inside an iteration is logged and the loop goes on.\<close>

fun salutation_options :: "world \<Rightarrow> locator \<Rightarrow> string \<Rightarrow> locator list \<Rightarrow> bool prog" where
  "salutation_options w salutation_dropdown normalized_preference [] = ret False"
| "salutation_options w salutation_dropdown normalized_preference (option # rest) =
     bnd (try_except
            (bnd (text_content w option) (\<lambda>option_text.
               bnd (get_attribute w option ''value'') (\<lambda>option_value.
                 case option_text of
                   None \<Rightarrow> ret False
                 | Some text \<Rightarrow>
                     if text = [] then ret False
                     else if salutation_matches (strip (lower text)) normalized_preference then
                       andthen
                         (case option_value of
                            None \<Rightarrow> act w (Select_option salutation_dropdown (By_label text))
                          | Some v \<Rightarrow>
                              if v = []
                              then act w (Select_option salutation_dropdown (By_label text))
                              else act w (Select_option salutation_dropdown (By_value v)))
                         (andthen count_up (ret True))
                     else ret False)))
            (\<lambda>e. ret False))
         (\<lambda>found_match.
            if found_match then ret True
            else salutation_options w salutation_dropdown normalized_preference rest)"

text \<open>Selecting the option at index 1, by its value if it has one: the fallback of the
  salutation block and the whole of the source block.\<close>

definition select_second_option :: "world \<Rightarrow> locator \<Rightarrow> unit prog" where
  "select_second_option w dropdown =
     bnd (get_attribute w (Nth (Sub dropdown ''option'') 1) ''value'') (\<lambda>value_to_select.
       andthen
         (case value_to_select of
            None \<Rightarrow> act w (Select_option dropdown (By_index 1))
          | Some v \<Rightarrow>
              if v = [] then act w (Select_option dropdown (By_index 1))
              else act w (Select_option dropdown (By_value v)))
         count_up)"

definition salutation_block :: "world \<Rightarrow> page \<Rightarrow> pydict \<Rightarrow> unit prog" where
  "salutation_block w page applicant_data =
     (let salutation_dropdown = field_locator page ''salutation''
      in attempt
           (bnd (is_visible w salutation_dropdown) (\<lambda>visible.
              if visible then
                (case dict_get applicant_data ''salutation_preference'' of
                   None \<Rightarrow> ret ()
                 | Some preferred_salutation \<Rightarrow>
                     if preferred_salutation = [] then ret ()
                     else
                       bnd (all_of w (Sub salutation_dropdown ''option'')) (\<lambda>options.
                         bnd (salutation_options w salutation_dropdown
                                (strip (lower preferred_salutation)) options) (\<lambda>found_match.
                           if found_match then ret ()
                           else if length options > 1
                           then attempt (select_second_option w salutation_dropdown)
                           else ret ())))
              else ret ())))"

text \<open>A text field that is filled from the applicant data under \<open>key\<close>: the body of the
  loop over the four text fields, and the salary block.\<close>

definition text_field_block :: "world \<Rightarrow> page \<Rightarrow> pydict \<Rightarrow> string \<Rightarrow> unit prog" where
  "text_field_block w page applicant_data key =
     (let locator = field_locator page key
      in attempt
           (bnd (is_visible w locator) (\<lambda>visible.
              if visible then
                (case dict_get applicant_data key of
                   None \<Rightarrow> ret ()
                 | Some v \<Rightarrow>
                     if v = [] then ret ()
                     else andthen (act w (Fill locator v)) count_up)
              else ret ())))"

definition resume_block :: "world \<Rightarrow> page \<Rightarrow> pydict \<Rightarrow> unit prog" where
  "resume_block w page applicant_data =
     (case dict_get applicant_data ''resume_path'' of
        None \<Rightarrow> ret ()
      | Some resume_path \<Rightarrow>
          if resume_path \<noteq> [] \<and> path_exists w resume_path then
            attempt
              (let upload_locator = field_locator page ''resume_upload''
               in bnd (is_enabled w upload_locator) (\<lambda>enabled.
                    if enabled
                    then andthen (act w (Set_input_files upload_locator resume_path)) count_up
                    else ret ()))
          else ret ())"

definition start_date_block :: "world \<Rightarrow> page \<Rightarrow> unit prog" where
  "start_date_block w page =
     (let start_date_input = field_locator page ''start_date''
      in attempt
           (bnd (is_visible w start_date_input) (\<lambda>visible.
              if visible then
                (case target_start_date (date_today w) of
                   Inl e \<Rightarrow> raise e
                 | Inr target \<Rightarrow>
                     andthen (act w (Fill start_date_input (strftime_dmy target))) count_up)
              else ret ())))"

text \<open>\<open>re.sub(r'[^a-zA-Z0-9_\-]', '_', input_name)\<close>.\<close>

definition safe_id :: "string \<Rightarrow> string" where
  "safe_id input_name =
     map (\<lambda>c. if is_ascii_alnum c \<or> c = CHR ''_'' \<or> c = CHR ''-'' then c else CHR ''_'')
       input_name"

text \<open>\<open>page.url.split('//')[-1].split('/')[0].split('.')[0]\<close>.\<close>

definition company_of_url :: "string \<Rightarrow> string" where
  "company_of_url url =
     first_piece (split_on CHR ''.''
       (first_piece (split_on CHR ''/'' (last_piece (split_str ''//'' url)))))"

definition placeholder_path_for :: "string \<Rightarrow> string \<Rightarrow> string \<Rightarrow> nat \<Rightarrow> string" where
  "placeholder_path_for upload_type url input_name random =
     ''output/generated_documents'' @ ''/'' @ ''placeholder_'' @ upload_type @ ''_''
       @ company_of_url url @ ''_'' @ safe_id input_name @ ''_''
       @ show_nat (1000 + random mod 9000) @ ''.pdf''"

text \<open>Whether a file input matches one of the cover-letter selectors: the loop over
  the pieces of the selector, without the \<open>try\<close> around it.\<close>

fun matches_any :: "world \<Rightarrow> locator \<Rightarrow> string list \<Rightarrow> bool prog" where
  "matches_any w file_input [] = ret False"
| "matches_any w file_input (sel # rest) =
     bnd (ask_bool w (Evaluate file_input (''node => node.matches(\"'' @ strip sel @ ''\")'')))
       (\<lambda>matched. if matched then ret True else matches_any w file_input rest)"

definition is_cover_letter_input :: "world \<Rightarrow> locator \<Rightarrow> bool prog" where
  "is_cover_letter_input w file_input =
     (let cover_letter_selector = selector_for ''cover_letter_upload''
      in if cover_letter_selector \<noteq> [] then
           try_except (matches_any w file_input (split_str '', '' cover_letter_selector))
             (\<lambda>e. ret False)
         else ret False)"

text \<open>The placeholder upload for one visible file input while fewer than two have been
  uploaded; the result is the new value of \<open>other_uploads_count\<close>.\<close>

definition upload_placeholder ::
  "world \<Rightarrow> page \<Rightarrow> locator \<Rightarrow> string \<Rightarrow> nat \<Rightarrow> nat prog" where
  "upload_placeholder w page file_input input_name other_uploads_count =
     bnd (observe (\<lambda>s. placeholder_doc_text w (trace s) ''other_document'' ''German''))
       (\<lambda>placeholder_text_de.
          case placeholder_text_de of
            None \<Rightarrow> ret other_uploads_count
          | Some text \<Rightarrow>
              if text = [] then ret other_uploads_count
              else
                bnd (observe (\<lambda>s. placeholder_path_for ''other_document''
                                     (page_url w (trace s) page) input_name (randint w (trace s))))
                  (\<lambda>placeholder_path.
                     bnd (observe (\<lambda>s. placeholder_pdf w (trace s) placeholder_path text))
                       (\<lambda>generated.
                          if generated then
                            bnd (is_enabled w file_input) (\<lambda>enabled.
                              if enabled then
                                andthen (act w (Set_input_files file_input placeholder_path))
                                  (andthen count_up (ret (other_uploads_count + 1)))
                              else ret other_uploads_count)
                          else ret other_uploads_count)))"

text \<open>The loop \<open>for i, file_input in enumerate(all_file_inputs)\<close>, from index \<open>i\<close> on.\<close>

fun other_uploads :: "world \<Rightarrow> page \<Rightarrow> nat \<Rightarrow> nat \<Rightarrow> locator list \<Rightarrow> unit prog" where
  "other_uploads w page other_uploads_count i [] = ret ()"
| "other_uploads w page other_uploads_count i (file_input # rest) =
     bnd (get_attribute w file_input ''name'') (\<lambda>input_name_current.
       if input_name_current = Some ''cv[cv]''
       then other_uploads w page other_uploads_count (i + 1) rest
       else
         bnd (is_cover_letter_input w file_input) (\<lambda>is_cover_letter.
           if is_cover_letter then other_uploads w page other_uploads_count (i + 1) rest
           else
             bnd (is_visible w file_input) (\<lambda>visible.
               if visible then
                 bnd (get_attribute w file_input ''name'') (\<lambda>by_name.
                   bnd (if truthy by_name then ret by_name
                        else get_attribute w file_input ''id'') (\<lambda>by_name_or_id.
                     let input_name =
                           (case by_name_or_id of
                              None \<Rightarrow> ''input_'' @ show_nat i
                            | Some n \<Rightarrow> if n = [] then ''input_'' @ show_nat i else n)
                     in if other_uploads_count < 2 then
                          bnd (upload_placeholder w page file_input input_name
                                 other_uploads_count) (\<lambda>other_uploads_count.
                            other_uploads w page other_uploads_count (i + 1) rest)
                        else other_uploads w page other_uploads_count (i + 1) rest))
               else other_uploads w page other_uploads_count (i + 1) rest)))"

definition other_uploads_block :: "world \<Rightarrow> page \<Rightarrow> unit prog" where
  \<open>other_uploads_block w page =
     attempt
       (bnd (all_of w (Locator page ''input[type="file"]'')) (\<lambda>all_file_inputs.
          other_uploads w page 0 0 all_file_inputs))\<close>

definition source_block :: "world \<Rightarrow> page \<Rightarrow> unit prog" where
  "source_block w page =
     (let source_dropdown = field_locator page ''source''
      in attempt
           (bnd (is_visible w source_dropdown) (\<lambda>visible.
              if visible then
                bnd (all_of w (Sub source_dropdown ''option'')) (\<lambda>options.
                  if length options > 1 then select_second_option w source_dropdown
                  else ret ())
              else ret ())))"

definition consent_block :: "world \<Rightarrow> page \<Rightarrow> unit prog" where
  "consent_block w page =
     (let consent_checkbox = field_locator page ''consent_checkbox''
      in attempt
           (bnd (is_visible w consent_checkbox) (\<lambda>visible.
              if visible then
                bnd (is_checked w consent_checkbox) (\<lambda>checked.
                  if \<not> checked then andthen (act w (Check consent_checkbox)) count_up
                  else ret ())
              else ret ())))"

text \<open>The submit button is looked for and its text is read for the log; the click is
  a comment in the source.\<close>

definition submit_block :: "world \<Rightarrow> page \<Rightarrow> unit prog" where
  "submit_block w page =
     (let submit_locator = field_locator page ''submit_button''
      in attempt
           (bnd (is_visible w submit_locator) (\<lambda>visible.
              if visible then bnd (text_content w submit_locator) (\<lambda>shown. ret ())
              else ret ())))"

subsection \<open>The whole pass\<close>

text \<open>A Python value that is an integer or \<open>None\<close>.\<close>

datatype pyval = PyNone | PyInt int

text \<open>The function has no \<open>return\<close> statement: after the submit block its body ends,
  and the call evaluates to \<open>None\<close>. \<open>filled_count\<close> stays behind in the state.\<close>

definition fill_application_form :: "world \<Rightarrow> page \<Rightarrow> pydict \<Rightarrow> pyval prog" where
  "fill_application_form w page applicant_data =
     bnd (in_order
            [modify (\<lambda>s. s\<lparr>filled_count := 0\<rparr>),
             salutation_block w page applicant_data,
             text_field_block w page applicant_data ''first_name'',
             text_field_block w page applicant_data ''last_name'',
             text_field_block w page applicant_data ''email'',
             text_field_block w page applicant_data ''phone'',
             resume_block w page applicant_data,
             start_date_block w page,
             text_field_block w page applicant_data ''salary_expectation'',
             other_uploads_block w page,
             source_block w page,
             consent_block w page,
             submit_block w page])
       (\<lambda>done. ret PyNone)"

section \<open>The link and button resolver (apply\_on\_site)\<close>

subsection \<open>find\_job\_link\<close>

definition JOB_LINK_SELECTORS :: "string list" where
  "JOB_LINK_SELECTORS =
     [''a'', ''li a'', ''div[role='' @ [CHR 0x27] @ ''listitem'' @ [CHR 0x27] @ ''] a'',
      ''h3 > a'', ''div[class*='' @ [CHR 0x27] @ ''job'' @ [CHR 0x27] @ ''] a'']"

text \<open>A search context is the page or a frame of it.\<close>

datatype search_context = Page_context page | Frame_context page string

definition context_locator :: "search_context \<Rightarrow> string \<Rightarrow> locator" where
  "context_locator search_context sel =
     (case search_context of
        Page_context p \<Rightarrow> Locator p sel
      | Frame_context p frame \<Rightarrow> Frame_locator p frame sel)"

text \<open>The keywords of a normalized title: brackets, slashes and backslashes become
  spaces, and the words of more than one character are kept.\<close>

definition target_keywords_of :: "string \<Rightarrow> string list" where
  "target_keywords_of normalized_target_title =
     (let cleaned_for_keywords =
            map (\<lambda>c. if c = CHR ''('' \<or> c = CHR '')'' \<or> c = CHR ''/'' \<or> c = CHR 0x5C
                      then CHR '' '' else c) normalized_target_title;
          cleaned_for_keywords = strip (collapse_ws cleaned_for_keywords)
      in filter (\<lambda>word. length word > 1) (split_ws cleaned_for_keywords))"

definition keywords_present :: "string list \<Rightarrow> string \<Rightarrow> bool" where
  "keywords_present target_keywords normalized_text =
     list_all (\<lambda>keyword. sublist keyword normalized_text) target_keywords"

text \<open>The two \<open>replace\<close> calls that build \<open>safe_target_title\<close> replace a quote character
  by itself (\<open>'\"'\<close> is the string \<open>"\<close>), so the selector holds the normalized title as
  it is.\<close>

definition direct_text_selector :: "string \<Rightarrow> string" where
  \<open>direct_text_selector normalized_target_title =
     ''a:has-text("'' @ normalized_target_title @ ''")''\<close>

text \<open>Strategy 1, the loop over the direct text matches: the first visible link whose
  normalized text holds every keyword is returned.\<close>

fun direct_matches :: "world \<Rightarrow> string list \<Rightarrow> locator list \<Rightarrow> locator option prog" where
  "direct_matches w target_keywords [] = ret None"
| "direct_matches w target_keywords (link # rest) =
     bnd (is_visible w link) (\<lambda>visible.
       if visible then
         bnd (text_content w link) (\<lambda>content.
           case content of
             None \<Rightarrow> direct_matches w target_keywords rest
           | Some t \<Rightarrow>
               if t = [] then direct_matches w target_keywords rest
               else if keywords_present target_keywords (normalize_text (strip t))
               then ret (Some link)
               else direct_matches w target_keywords rest)
       else direct_matches w target_keywords rest)"

text \<open>Strategy 2 collects the elements of every structural selector.\<close>

fun collect_links :: "world \<Rightarrow> search_context \<Rightarrow> string list \<Rightarrow> locator list prog" where
  "collect_links w search_context [] = ret []"
| "collect_links w search_context (selector # rest) =
     bnd (try_except (all_of w (context_locator search_context selector)) (\<lambda>e. ret []))
       (\<lambda>elements.
          bnd (collect_links w search_context rest) (\<lambda>more. ret (elements @ more)))"

text \<open>The ratio \<open>len(normalized_target_title) / len(normalized_text)\<close>. It is a
  Python float; two ratios of lengths below \<open>2^26\<close> compare as floats the way they compare
  as rationals.\<close>

definition similarity :: "string \<Rightarrow> string \<Rightarrow> rat" where
  "similarity normalized_target_title normalized_text =
     (if normalized_text \<noteq> []
      then of_nat (length normalized_target_title) / of_nat (length normalized_text)
      else 0)"

text \<open>The scoring loop, with \<open>best_match\<close> and \<open>highest_sim\<close> as its state.\<close>

fun best_link ::
  "world \<Rightarrow> string \<Rightarrow> string list \<Rightarrow> locator list \<Rightarrow> locator option \<times> rat
   \<Rightarrow> locator option prog" where
  "best_link w normalized_target_title target_keywords [] best = ret (fst best)"
| "best_link w normalized_target_title target_keywords (link # rest) best =
     bnd (try_except
            (bnd (is_visible w link) (\<lambda>visible.
               if \<not> visible then ret best
               else
                 bnd (text_content w link) (\<lambda>content.
                   case content of
                     None \<Rightarrow> ret best
                   | Some t \<Rightarrow>
                       if t = [] then ret best
                       else
                         let normalized_text = normalize_text (strip t)
                         in if keywords_present target_keywords normalized_text then
                              (let sim = similarity normalized_target_title normalized_text
                               in if sim > snd best then ret (Some link, sim) else ret best)
                            else ret best)))
            (\<lambda>e. ret best))
       (\<lambda>best. best_link w normalized_target_title target_keywords rest best)"

definition find_job_link :: "world \<Rightarrow> search_context \<Rightarrow> string \<Rightarrow> locator option prog" where
  "find_job_link w search_context target_title =
     (let normalized_target_title = normalize_text target_title;
          target_keywords = target_keywords_of normalized_target_title
      in bnd (try_except
                (bnd (all_of w (context_locator search_context
                                  (direct_text_selector normalized_target_title)))
                   (\<lambda>text_matches. direct_matches w target_keywords text_matches))
                (\<lambda>e. ret None))
           (\<lambda>direct.
              case direct of
                Some link \<Rightarrow> ret (Some link)
              | None \<Rightarrow>
                  bnd (collect_links w search_context JOB_LINK_SELECTORS) (\<lambda>potential_links.
                    best_link w normalized_target_title target_keywords potential_links
                      (None, 0))))"

subsection \<open>apply\_to\_job\<close>

definition quoted :: "string \<Rightarrow> string" where
  "quoted s = [CHR 0x27] @ s @ [CHR 0x27]"

definition COOKIE_SELECTORS :: "string list" where
  "COOKIE_SELECTORS =
     [''button:has-text('' @ quoted ''Accept'' @ '')'',
      ''button:has-text('' @ quoted ''Accept'' @ '')'',
      ''button:has-text('' @ quoted ''Alle akzeptieren'' @ '')'',
      ''button:has-text('' @ quoted ''Akzeptieren'' @ '')'',
      ''#onetrust-accept-btn-handler'']"

definition PRIMARY_APPLY_SELECTORS_TEXT :: "string list" where
  "PRIMARY_APPLY_SELECTORS_TEXT =
     [''button:has-text('' @ quoted ''Ich will den Job'' @ '')'',
      ''a:has-text('' @ quoted ''Ich will den Job'' @ '')'',
      ''button:has-text('' @ quoted ''Apply Now'' @ '')'',
      ''a:has-text('' @ quoted ''Apply Now'' @ '')'',
      ''button:has-text('' @ quoted ''Jetzt bewerben'' @ '')'',
      ''a:has-text('' @ quoted ''Jetzt bewerben'' @ '')'',
      ''button:has-text('' @ quoted ''Apply'' @ '')'',
      ''a:has-text('' @ quoted ''Apply'' @ '')'',
      ''button:has-text('' @ quoted ''Bewerben'' @ '')'',
      ''a:has-text('' @ quoted ''Bewerben'' @ '')'']"

text \<open>Tag and pattern; every pattern is compiled with \<open>re.IGNORECASE\<close>.\<close>

definition PRIMARY_APPLY_SELECTORS_REGEX :: "(string \<times> string) list" where
  "PRIMARY_APPLY_SELECTORS_REGEX =
     [(''button'', ''^Apply Now$''), (''a'', ''^Apply Now$''),
      (''button'', ''^Jetzt bewerben$''), (''a'', ''^Jetzt bewerben$''),
      (''button'', ''^Apply$''), (''a'', ''^Apply$''),
      (''button'', ''^Bewerben$''), (''a'', ''^Bewerben$'')]"

definition OTHER_PRIMARY_APPLY_SELECTORS :: "string list" where
  "OTHER_PRIMARY_APPLY_SELECTORS =
     [''input[type='' @ quoted ''submit'' @ ''][value*='' @ quoted ''Apply'' @ '']'',
      ''input[type='' @ quoted ''button'' @ ''][value*='' @ quoted ''Apply'' @ '']'',
      ''button[data-testid*='' @ quoted ''apply'' @ '']'',
      ''a[data-testid*='' @ quoted ''apply'' @ '']'']"

text \<open>The loop over the cookie selectors: the first visible button is clicked.\<close>

fun cookie_banners :: "world \<Rightarrow> page \<Rightarrow> string list \<Rightarrow> unit prog" where
  "cookie_banners w page [] = ret ()"
| "cookie_banners w page (selector # rest) =
     bnd (try_except
            (let cookie_button = First (Locator page selector)
             in bnd (is_visible w cookie_button) (\<lambda>visible.
                  if visible then andthen (act w (Click cookie_button)) (ret True)
                  else ret False))
            (\<lambda>e. ret False))
       (\<lambda>accepted_cookie. if accepted_cookie then ret () else cookie_banners w page rest)"

text \<open>The three strategies, in order; a locator whose construction raises is left
  out.\<close>

definition potential_buttons :: "world \<Rightarrow> page \<Rightarrow> locator list" where
  "potential_buttons w page =
     map First
       (filter (can_locate w)
          (map (Locator page) PRIMARY_APPLY_SELECTORS_TEXT
           @ map (\<lambda>tp. Locator_text page (fst tp) (snd tp)) PRIMARY_APPLY_SELECTORS_REGEX
           @ map (Locator page) OTHER_PRIMARY_APPLY_SELECTORS))"

text \<open>The body of the \<open>try\<close> inside the loop over the potential buttons; the result is
  whether the button was clicked (and the loop left by \<open>break\<close>).\<close>

definition apply_button_attempt :: "world \<Rightarrow> locator \<Rightarrow> bool prog" where
  "apply_button_attempt w apply_button =
     bnd (is_visible w apply_button) (\<lambda>visible.
       if visible then
         bnd (text_content w apply_button) (\<lambda>content.
           bnd (if truthy content then ret content
                else bnd (get_attribute w apply_button ''value'') (\<lambda>v.
                       if truthy v then ret v
                       else get_attribute w apply_button ''aria-label'')) (\<lambda>button_text.
             andthen (act w (Scroll_into_view_if_needed apply_button))
               (bnd (try_except_timeout
                       (andthen (act w (Click apply_button))
                          (bnd (ask_page w Expect_page) (\<lambda>new_page. ret (Some new_page))))
                       (ret None)) (\<lambda>new_page_info.
                  andthen
                    (bnd (observe cur_page) (\<lambda>page.
                       case new_page_info of
                         Some new_page \<Rightarrow>
                           andthen (case page of
                                      None \<Rightarrow> ret ()
                                    | Some p \<Rightarrow> act w (Close_page p))
                             (andthen (modify (\<lambda>s. s\<lparr>cur_page := Some new_page\<rparr>))
                                (act w (Wait_for_load_state new_page ''domcontentloaded'')))
                       | None \<Rightarrow>
                           (case page of
                              None \<Rightarrow> ret ()
                            | Some p \<Rightarrow> act w (Wait_for_load_state p ''domcontentloaded''))))
                    (andthen
                       (modify (\<lambda>s. s\<lparr>final_url :=
                                  (case cur_page s of
                                     None \<Rightarrow> None
                                   | Some p \<Rightarrow> Some (page_url w (trace s) p))\<rparr>))
                       (ret True))))))
       else ret False)"

fun try_buttons :: "world \<Rightarrow> locator list \<Rightarrow> bool prog" where
  "try_buttons w [] = ret False"
| "try_buttons w (apply_button # rest) =
     bnd (try_except (apply_button_attempt w apply_button) (\<lambda>e. ret False))
       (\<lambda>clicked. if clicked then ret True else try_buttons w rest)"

text \<open>The \<open>finally\<close> clause.\<close>

definition close_resources :: "world \<Rightarrow> unit prog" where
  "close_resources w =
     andthen
       (bnd (observe context_set) (\<lambda>has_context.
          if has_context then
            attempt (bnd (ask_bool w Context_pages) (\<lambda>pages.
                       if pages then act w Close_context else ret ()))
          else ret ()))
       (bnd (observe browser_set) (\<lambda>has_browser.
          if has_browser then attempt (act w Close_browser) else ret ()))"

text \<open>
  The body of the outer \<open>try\<close>. \<open>job_link_element\<close> is assigned \<open>None\<close> before the
  \<open>try\<close> and nowhere else: where no button was clicked the source logs that it proceeds
  to look for the job link, and goes on to the test below without calling
  \<open>find_job_link\<close>.
\<close>

definition apply_to_job_body ::
  "world \<Rightarrow> string \<Rightarrow> pydict \<Rightarrow> bool \<Rightarrow> string option \<Rightarrow> unit prog" where
  "apply_to_job_body w career_page_url applicant_data headless user_data_dir =
     andthen
       (if truthy user_data_dir then
          andthen (act w (Launch_persistent_context
                            (case user_data_dir of None \<Rightarrow> [] | Some d \<Rightarrow> d) headless))
            (modify (\<lambda>s. s\<lparr>context_set := True\<rparr>))
        else
          andthen (act w (Launch headless))
            (andthen (modify (\<lambda>s. s\<lparr>browser_set := True\<rparr>))
               (andthen (act w New_context) (modify (\<lambda>s. s\<lparr>context_set := True\<rparr>)))))
       (bnd (ask_page w New_page) (\<lambda>page.
          in_order
            [modify (\<lambda>s. s\<lparr>cur_page := Some page\<rparr>),
             act w (Goto page career_page_url),
             cookie_banners w page COOKIE_SELECTORS,
             act w (Wait_for_load_state page ''networkidle''),
             bnd (try_buttons w (potential_buttons w page)) (\<lambda>clicked_primary_apply.
               let job_link_element = (None :: locator option)
               in if clicked_primary_apply \<or> job_link_element \<noteq> None then
                    bnd (observe cur_page) (\<lambda>page.
                      case page of
                        Some p \<Rightarrow>
                          bnd (fill_application_form w p applicant_data) (\<lambda>form_filled. ret ())
                      | None \<Rightarrow> ret ())
                  else ret ())]))"

definition apply_to_job ::
  "world \<Rightarrow> string \<Rightarrow> string \<Rightarrow> pydict \<Rightarrow> bool \<Rightarrow> string option \<Rightarrow> string option prog" where
  "apply_to_job w career_page_url target_job_title applicant_data headless user_data_dir =
     (let normalized_target_title = normalize_text target_job_title
      in andthen
           (modify (\<lambda>s. s\<lparr>final_url := None, browser_set := False, context_set := False,
                          cur_page := None\<rparr>))
           (andthen
              (try_except
                 (apply_to_job_body w career_page_url applicant_data headless user_data_dir)
                 (\<lambda>e. modify (\<lambda>s. s\<lparr>final_url := None\<rparr>)))
              (andthen (close_resources w) (observe final_url))))"

section \<open>Normal forms of the text normalizer\<close>

definition edge_ok :: "string \<Rightarrow> bool" where
  "edge_ok s = (s = [] \<or> (is_ascii_alnum (hd s) \<and> \<not> is_trailing_junk (last s)))"

definition lower_fixed :: "string \<Rightarrow> bool" where
  "lower_fixed s = (\<forall>c \<in> set s. lower_char c = c)"

definition normal_form :: "string \<Rightarrow> bool" where
  "normal_form s = (edge_ok s \<and> collapse_ws s = s \<and> lower_fixed s)"

text \<open>An answer of the language service with an irrelevant entry and four candidates.\<close>

definition demo_response :: string where
  "demo_response = ''Werkstudent Data Science, Praktikum, Werkstudent DevOps,Working Student QA''"

section \<open>The invariant of the scraping loop\<close>

text \<open>From \<open>s\<close> to \<open>s'\<close> the seen set has only grown, the job list has only been
  appended to, and every appended job carries a URL that was not seen in \<open>s\<close>, is seen in
  \<open>s'\<close> and differs from the URL of every other appended job.\<close>

definition appended_fresh :: "scrape_state \<Rightarrow> scrape_state \<Rightarrow> bool" where
  "appended_fresh s s' =
     (processed_job_urls s \<subseteq> processed_job_urls s'
      \<and> (\<exists>new. all_found_jobs s' = all_found_jobs s @ new
             \<and> distinct (map url_of new)
             \<and> (\<forall>j \<in> set new. \<exists>u. url_of j = Some u \<and> u \<notin> processed_job_urls s
                                   \<and> u \<in> processed_job_urls s')))"

text \<open>Two sources for a run: LinkedIn lists the same posting twice and a senior role,
  StepStone lists the LinkedIn posting again and one of its own.\<close>

definition demo_card :: "string \<Rightarrow> string \<Rightarrow> string \<Rightarrow> pydict" where
  "demo_card title url src =
     [(''title'', Some title), (''company'', Some ''ACME''), (''location'', Some ''Bonn''),
      (''url'', Some url), (''source'', Some src)]"

definition demo_linkedin :: job_source where
  "demo_linkedin =
     \<lparr>search_jobs = (\<lambda>t kw loc n. Inr
         [demo_card ''Werkstudent Data Analyst'' ''https://li/1'' ''LinkedIn'',
          demo_card ''Werkstudent Data Analyst'' ''https://li/1'' ''LinkedIn'',
          demo_card ''Senior Werkstudent Data'' ''https://li/2'' ''LinkedIn'']),
       description_of = (\<lambda>t u. Inr (Some ''text''))\<rparr>"

definition demo_stepstone :: job_source where
  "demo_stepstone =
     \<lparr>search_jobs = (\<lambda>t kw loc n. Inr
         [demo_card ''Werkstudent Data Analyst'' ''https://li/1'' ''StepStone'',
          demo_card ''Working Student Data'' ''https://ss/7'' ''StepStone'']),
       description_of = (\<lambda>t u. Inr None)\<rparr>"

section \<open>Form controls for the mandatory-field detector\<close>

text \<open>A world without labels in which nothing is visible and an attribute has the value
  the given function says.\<close>

definition bare_world :: "(string \<Rightarrow> exn + string option) \<Rightarrow> world" where
  "bare_world attr =
     \<lparr>bool_of = (\<lambda>tr ev. Inr False),
       text_of = (\<lambda>tr ev. case ev of Get_attribute l name \<Rightarrow> attr name | _ \<Rightarrow> Inr None),
       count_of = (\<lambda>tr ev. Inr 0),
       page_of = (\<lambda>tr ev. Inr 0),
       done_of = (\<lambda>tr ev. None),
       can_locate = (\<lambda>l. True),
       date_today = \<lparr>year = 2024, month = 3, day = 15\<rparr>,
       path_exists = (\<lambda>p. False),
       page_url = (\<lambda>tr p. ''https://jobs.example.com/apply''),
       randint = (\<lambda>tr. 0),
       placeholder_doc_text = (\<lambda>tr t l. None),
       placeholder_pdf = (\<lambda>tr p t. False)\<rparr>"

text \<open>\<open><input required>\<close>: the attribute is present and its value is the empty string.\<close>

definition required_input :: world where
  "required_input = bare_world (\<lambda>name. Inr (if name = ''required'' then Some [] else None))"

text \<open>\<open><input required="required" id="cv">\<close>.\<close>

definition required_valued_input :: world where
  "required_valued_input =
     bare_world (\<lambda>name. Inr (if name = ''required'' then Some ''required''
                              else if name = ''id'' then Some ''cv'' else None))"

text \<open>A control that has left the page: every attribute read times out.\<close>

definition detached_input :: world where
  "detached_input = bare_world (\<lambda>name. Inl PlaywrightTimeoutError)"

text \<open>A control whose first attribute read fails and that has no name.\<close>

definition flaky_input :: world where
  "flaky_input =
     bare_world (\<lambda>name. if name = ''required'' then Inl (Error ''detached'') else Inr None)"

definition the_input :: locator where
  "the_input = First (Locator 0 ''input[type=file]'')"

section \<open>Pages for the form filler\<close>

definition demo_applicant :: pydict where
  "demo_applicant =
     [(''first_name'', Some ''Ada''), (''last_name'', Some ''Lovelace''),
      (''email'', Some ''ada@example.org''), (''phone'', Some ''+4900000000''),
      (''salutation_preference'', Some ''Frau''), (''resume_path'', Some ''data/base_resume.pdf''),
      (''cover_letter_path'', Some []), (''salary_expectation'', Some ''62345 EUR''),
      (''source'', Some ''LinkedIn'')]"

text \<open>A form on page 0 that shows a first-name field, a start-date field and a submit
  button; its only file input is the one for the resume. The date is 15 March 2024.\<close>

definition form_page :: world where
  \<open>form_page =
     \<lparr>bool_of = (\<lambda>tr ev.
         case ev of
           Is_visible l \<Rightarrow>
             Inr (l = field_locator 0 ''first_name'' \<or> l = field_locator 0 ''start_date''
                  \<or> l = field_locator 0 ''submit_button'')
         | _ \<Rightarrow> Inr False),
       text_of = (\<lambda>tr ev.
         case ev of
           Text_content l \<Rightarrow> Inr (Some ''Bewerbung abschicken'')
         | Get_attribute l name \<Rightarrow> Inr (if name = ''name'' then Some ''cv[cv]'' else None)
         | _ \<Rightarrow> Inr None),
       count_of = (\<lambda>tr ev. Inr 1),
       page_of = (\<lambda>tr ev. Inr 0),
       done_of = (\<lambda>tr ev. None),
       can_locate = (\<lambda>l. True),
       date_today = \<lparr>year = 2024, month = 3, day = 15\<rparr>,
       path_exists = (\<lambda>p. False),
       page_url = (\<lambda>tr p. ''https://jobs.example.com/apply''),
       randint = (\<lambda>tr. 4242),
       placeholder_doc_text = (\<lambda>tr t l. Some ''[Platzhalter]''),
       placeholder_pdf = (\<lambda>tr p t. True)\<rparr>\<close>

text \<open>The events of the form pass on that page.\<close>

definition form_page_trace :: "event list" where
  \<open>form_page_trace =
     [Is_visible (field_locator 0 ''salutation''),
      Is_visible (field_locator 0 ''first_name''),
      Fill (field_locator 0 ''first_name'') ''Ada'',
      Is_visible (field_locator 0 ''last_name''),
      Is_visible (field_locator 0 ''email''),
      Is_visible (field_locator 0 ''phone''),
      Is_visible (field_locator 0 ''start_date''),
      Fill (field_locator 0 ''start_date'') ''01.05.2024'',
      Is_visible (field_locator 0 ''salary_expectation''),
      All_of (Locator 0 ''input[type="file"]''),
      Get_attribute (Nth (Locator 0 ''input[type="file"]'') 0) ''name'',
      Is_visible (field_locator 0 ''source''),
      Is_visible (field_locator 0 ''consent_checkbox''),
      Is_visible (field_locator 0 ''submit_button''),
      Text_content (field_locator 0 ''submit_button'')]\<close>

section \<open>Properties of traces\<close>

text \<open>Every run of \<open>m\<close> appends events to the trace, and each of them satisfies \<open>P\<close>.\<close>

definition emits :: "(event \<Rightarrow> bool) \<Rightarrow> 'a prog \<Rightarrow> bool" where
  "emits P m = (\<forall>s. \<exists>evs. trace (snd (m s)) = trace s @ evs \<and> list_all P evs)"

text \<open>\<open>m\<close> comes to its end without an exception.\<close>

definition completes :: "unit prog \<Rightarrow> bool" where
  "completes m = (\<forall>s. fst (m s) = Inr ())"

primrec is_click :: "event \<Rightarrow> bool" where
  "is_click (Launch_persistent_context d h) = False"
| "is_click (Launch h) = False"
| "is_click New_context = False"
| "is_click New_page = False"
| "is_click (Goto p u) = False"
| "is_click (Wait_for_load_state p st) = False"
| "is_click (Close_page p) = False"
| "is_click Expect_page = False"
| "is_click Context_pages = False"
| "is_click Close_context = False"
| "is_click Close_browser = False"
| "is_click (Is_visible l) = False"
| "is_click (Is_enabled l) = False"
| "is_click (Is_checked l) = False"
| "is_click (Text_content l) = False"
| "is_click (Get_attribute l n) = False"
| "is_click (All_of l) = False"
| "is_click (Evaluate l js) = False"
| "is_click (Scroll_into_view_if_needed l) = False"
| "is_click (Click l) = True"
| "is_click (Fill l v) = False"
| "is_click (Select_option l b) = False"
| "is_click (Set_input_files l f) = False"
| "is_click (Check l) = False"

text \<open>The locator an event acts on, for the events that do something to an element
  rather than read one of its properties.\<close>

primrec acted_on :: "event \<Rightarrow> locator option" where
  "acted_on (Launch_persistent_context d h) = None"
| "acted_on (Launch h) = None"
| "acted_on New_context = None"
| "acted_on New_page = None"
| "acted_on (Goto p u) = None"
| "acted_on (Wait_for_load_state p st) = None"
| "acted_on (Close_page p) = None"
| "acted_on Expect_page = None"
| "acted_on Context_pages = None"
| "acted_on Close_context = None"
| "acted_on Close_browser = None"
| "acted_on (Is_visible l) = None"
| "acted_on (Is_enabled l) = None"
| "acted_on (Is_checked l) = None"
| "acted_on (Text_content l) = None"
| "acted_on (Get_attribute l n) = None"
| "acted_on (All_of l) = None"
| "acted_on (Evaluate l js) = Some l"
| "acted_on (Scroll_into_view_if_needed l) = Some l"
| "acted_on (Click l) = Some l"
| "acted_on (Fill l v) = Some l"
| "acted_on (Select_option l b) = Some l"
| "acted_on (Set_input_files l f) = Some l"
| "acted_on (Check l) = Some l"

text \<open>The text a \<open>fill\<close> writes into the start-date field, if the event is one.\<close>

definition start_date_written :: "page \<Rightarrow> event \<Rightarrow> string option" where
  "start_date_written page e =
     (case e of
        Fill l v \<Rightarrow> if l = field_locator page ''start_date'' then Some v else None
      | _ \<Rightarrow> None)"

text \<open>What holds of every event of a form pass: it is no click, it does nothing to the
  submit button, and if it writes the start date, it writes the computed one.\<close>

definition form_event_ok :: "world \<Rightarrow> page \<Rightarrow> event \<Rightarrow> bool" where
  "form_event_ok w page e =
     (\<not> is_click e
      \<and> acted_on e \<noteq> Some (field_locator page ''submit_button'')
      \<and> (case start_date_written page e of
            None \<Rightarrow> True
          | Some v \<Rightarrow> map_sum id strftime_dmy (target_start_date (date_today w)) = Inr v))"

section \<open>A career page that lists jobs\<close>

text \<open>A page without an apply button and without a cookie banner. Every selector that
  is asked for all its elements finds one element, a visible link with the text of the
  posting; no first match of a selector is visible.\<close>

definition listing_page :: world where
  "listing_page =
     \<lparr>bool_of = (\<lambda>tr ev.
         case ev of
           Is_visible l \<Rightarrow> Inr (case l of Nth l' n \<Rightarrow> True | _ \<Rightarrow> False)
         | Context_pages \<Rightarrow> Inr True
         | _ \<Rightarrow> Inr False),
       text_of = (\<lambda>tr ev.
         case ev of
           Text_content l \<Rightarrow> Inr (Some ''Werkstudent Data Analyst (m/w/d)'')
         | _ \<Rightarrow> Inr None),
       count_of = (\<lambda>tr ev. Inr 1),
       page_of = (\<lambda>tr ev. Inr 0),
       done_of = (\<lambda>tr ev. None),
       can_locate = (\<lambda>l. True),
       date_today = \<lparr>year = 2024, month = 3, day = 15\<rparr>,
       path_exists = (\<lambda>p. False),
       page_url = (\<lambda>tr p. ''https://careers.example.com/jobs''),
       randint = (\<lambda>tr. 0),
       placeholder_doc_text = (\<lambda>tr t l. None),
       placeholder_pdf = (\<lambda>tr p t. False)\<rparr>"

definition posting_link :: locator where
  "posting_link = Nth (Locator 0 (direct_text_selector ''werkstudent data analyst'')) 0"

text \<open>The events of an application attempt on that page: launch, navigation, the five
  cookie probes, the wait, one visibility probe for each potential apply button, and the
  clean-up.\<close>

definition listing_trace :: "string \<Rightarrow> event list" where
  "listing_trace url =
     [Launch False, New_context, New_page, Goto 0 url]
     @ map (\<lambda>selector. Is_visible (First (Locator 0 selector))) COOKIE_SELECTORS
     @ [Wait_for_load_state 0 ''networkidle'']
     @ map Is_visible (potential_buttons listing_page 0)
     @ [Context_pages, Close_context, Close_browser]"

section \<open>Properties of the text functions\<close>

lemma cp_char_of: "n < 256 \<Longrightarrow> cp (char_of n) = n"
  by (simp add: cp_def)

lemma lower_char_idem: "lower_char (lower_char c) = lower_char c"
  by (auto simp: lower_char_def in_range_def cp_char_of)

lemma is_space_lower_char: "is_space (lower_char c) = is_space c"
  by (auto simp: lower_char_def is_space_def in_range_def cp_char_of)

lemma lower_char_space: "lower_char CHR '' '' = CHR '' ''"
  by (simp add: lower_char_def in_range_def cp_def)

lemma space_is_space: "is_space CHR '' ''"
  by (simp add: is_space_def in_range_def cp_def)

lemma alnum_not_space: "is_ascii_alnum c \<Longrightarrow> \<not> is_space c"
  by (auto simp: is_ascii_alnum_def is_space_def in_range_def)

lemma space_is_junk: "is_space c \<Longrightarrow> is_trailing_junk c"
  by (simp add: is_trailing_junk_def)

lemma rev_dropWhile_rev_id: "s = [] \<or> \<not> P (last s) \<Longrightarrow> rev (dropWhile P (rev s)) = s"
  by (cases s rule: rev_cases) auto

lemma rev_dropWhile_rev_last:
  "rev (dropWhile P (rev s)) = [] \<or> \<not> P (last (rev (dropWhile P (rev s))))"
proof (cases "dropWhile P (rev s)")
  case Nil then show ?thesis by simp
next
  case (Cons a as)
  then have "\<not> P a" by (metis hd_dropWhile list.sel(1) list.distinct(1))
  with Cons show ?thesis by simp
qed

lemma last_dropWhile_ne: "dropWhile P s \<noteq> [] \<Longrightarrow> last (dropWhile P s) = last s"
proof (induction s)
  case Nil then show ?case by simp
next
  case (Cons a s)
  show ?case
  proof (cases "P a")
    case True
    with Cons.prems have ne: "dropWhile P s \<noteq> []" by simp
    then have "s \<noteq> []" by auto
    with Cons.IH[OF ne] True show ?thesis by simp
  next
    case False then show ?thesis by simp
  qed
qed

lemma strip_id: "s = [] \<or> (\<not> is_space (hd s) \<and> \<not> is_space (last s)) \<Longrightarrow> strip s = s"
proof -
  assume a: "s = [] \<or> (\<not> is_space (hd s) \<and> \<not> is_space (last s))"
  then have "rstrip s = s" unfolding rstrip_def by (intro rev_dropWhile_rev_id) auto
  moreover from a have "lstrip s = s" unfolding lstrip_def by (cases s) auto
  ultimately show ?thesis by (simp add: strip_def)
qed

lemma stage2_last:
  "strip (drop_trailing_junk s) = [] \<or> \<not> is_trailing_junk (last (strip (drop_trailing_junk s)))"
proof -
  let ?u = "drop_trailing_junk s"
  have u: "?u = [] \<or> \<not> is_trailing_junk (last ?u)"
    unfolding drop_trailing_junk_def by (rule rev_dropWhile_rev_last)
  then have r: "rstrip ?u = ?u"
    unfolding rstrip_def by (intro rev_dropWhile_rev_id) (auto simp: space_is_junk)
  show ?thesis
  proof (cases "lstrip ?u = []")
    case True then show ?thesis by (simp add: strip_def r)
  next
    case False
    then have "last (lstrip ?u) = last ?u" "?u \<noteq> []"
      unfolding lstrip_def by (auto simp: last_dropWhile_ne)
    with u show ?thesis by (simp add: strip_def r)
  qed
qed

lemma stage3_edge:
  assumes "t = [] \<or> \<not> is_trailing_junk (last t)"
  shows "edge_ok (strip (drop_leading_non_alnum t))"
proof -
  let ?d = "drop_leading_non_alnum t"
  have d: "edge_ok ?d"
  proof (cases "?d = []")
    case True then show ?thesis by (simp add: edge_ok_def)
  next
    case False
    then have "is_ascii_alnum (hd ?d)"
      unfolding drop_leading_non_alnum_def using hd_dropWhile by blast
    moreover from False have "last ?d = last t" "t \<noteq> []"
      unfolding drop_leading_non_alnum_def by (auto simp: last_dropWhile_ne)
    ultimately show ?thesis using assms by (simp add: edge_ok_def)
  qed
  then have "strip ?d = ?d"
    by (intro strip_id) (auto simp: edge_ok_def alnum_not_space space_is_junk)
  with d show ?thesis by simp
qed

lemma collapse_ws_Nil_iff: "collapse_ws s = [] \<longleftrightarrow> s = []"
  by (cases s) auto

lemma collapse_ws_hd: "s \<noteq> [] \<Longrightarrow> \<not> is_space (hd s) \<Longrightarrow> hd (collapse_ws s) = hd s"
  by (cases s) auto

lemma collapse_ws_last:
  "s \<noteq> [] \<Longrightarrow> \<not> is_space (last s) \<Longrightarrow> last (collapse_ws s) = last s"
proof (induction s rule: collapse_ws.induct)
  case 1 then show ?case by simp
next
  case (2 c cs)
  show ?case
  proof (cases "is_space c")
    case True
    define d where "d = dropWhile is_space cs"
    from True "2.prems" have ne: "cs \<noteq> []" by auto
    with "2.prems" have l: "\<not> is_space (last cs)" by simp
    have dne: "d \<noteq> []"
      unfolding d_def using ne l by (metis dropWhile_eq_Nil_conv last_in_set)
    then have ld: "last d = last cs" unfolding d_def by (rule last_dropWhile_ne)
    from "2.IH"(1)[OF True] dne l ld have "last (collapse_ws d) = last d"
      by (simp add: d_def)
    moreover have "collapse_ws (c # cs) = CHR '' '' # collapse_ws d"
      using True by (simp add: d_def)
    moreover have "collapse_ws d \<noteq> []" using dne by (simp add: collapse_ws_Nil_iff)
    ultimately show ?thesis using ld ne by simp
  next
    case False
    show ?thesis
    proof (cases "cs = []")
      case True with False show ?thesis by simp
    next
      case ne: False
      with "2.prems" have "\<not> is_space (last cs)" by simp
      with "2.IH"(2)[OF False ne] False ne show ?thesis
        by (simp add: collapse_ws_Nil_iff)
    qed
  qed
qed

lemma collapse_ws_idem: "collapse_ws (collapse_ws s) = collapse_ws s"
proof (induction s rule: collapse_ws.induct)
  case 1 then show ?case by simp
next
  case (2 c cs)
  show ?case
  proof (cases "is_space c")
    case True
    define d where "d = dropWhile is_space cs"
    have "dropWhile is_space (collapse_ws d) = collapse_ws d"
    proof (cases "d = []")
      case True then show ?thesis by simp
    next
      case False
      then have "\<not> is_space (hd d)" unfolding d_def by (rule hd_dropWhile)
      with False have "\<not> is_space (hd (collapse_ws d))" by (simp add: collapse_ws_hd)
      then show ?thesis by (simp add: dropWhile_eq_self_iff)
    qed
    moreover have "collapse_ws (collapse_ws d) = collapse_ws d"
      using "2.IH"(1)[OF True] by (simp add: d_def)
    moreover have "collapse_ws (c # cs) = CHR '' '' # collapse_ws d"
      using True by (simp add: d_def)
    ultimately show ?thesis by (simp add: space_is_space)
  next
    case False
    with "2.IH"(2)[OF False] show ?thesis by simp
  qed
qed

lemma collapse_ws_set: "set (collapse_ws s) \<subseteq> insert CHR '' '' (set s)"
proof (induction s rule: collapse_ws.induct)
  case 1 then show ?case by simp
next
  case (2 c cs)
  have "set (dropWhile is_space cs) \<subseteq> set cs" by (auto dest: set_dropWhileD)
  with 2 show ?case by (cases "is_space c") auto
qed

lemma lower_fixed_lower: "lower_fixed (lower s)"
  by (simp add: lower_fixed_def lower_def lower_char_idem)

lemma lower_fixed_id: "lower_fixed s \<Longrightarrow> lower s = s"
  by (simp add: lower_fixed_def lower_def map_idI)

lemma lower_fixed_subset: "lower_fixed s \<Longrightarrow> set t \<subseteq> insert CHR '' '' (set s) \<Longrightarrow> lower_fixed t"
  by (auto simp: lower_fixed_def lower_char_space)

lemma set_strip: "set (strip s) \<subseteq> set s"
proof -
  have "set (lstrip (rstrip s)) \<subseteq> set (rstrip s)"
    unfolding lstrip_def by (auto dest: set_dropWhileD)
  moreover have "set (rstrip s) \<subseteq> set s"
    unfolding rstrip_def using set_dropWhileD[of _ is_space "rev s"] by auto
  ultimately show ?thesis by (auto simp: strip_def)
qed

lemma set_drop_trailing_junk: "set (drop_trailing_junk s) \<subseteq> set s"
  unfolding drop_trailing_junk_def using set_dropWhileD[of _ is_trailing_junk "rev s"] by auto

lemma set_drop_leading_non_alnum: "set (drop_leading_non_alnum s) \<subseteq> set s"
  unfolding drop_leading_non_alnum_def by (auto dest: set_dropWhileD)

lemma normalize_text_normal_form: "normal_form s \<Longrightarrow> normalize_text s = s"
proof (cases "s = []")
  case True then show ?thesis by (simp add: normalize_text_def)
next
  case False
  assume nf: "normal_form s"
  with False have e: "is_ascii_alnum (hd s)" "\<not> is_trailing_junk (last s)"
    by (auto simp: normal_form_def edge_ok_def)
  from nf have l: "lower s = s" by (simp add: normal_form_def lower_fixed_id)
  have j: "drop_trailing_junk s = s"
    unfolding drop_trailing_junk_def using e by (intro rev_dropWhile_rev_id) simp
  have st: "strip s = s"
    using e by (intro strip_id) (auto simp: alnum_not_space space_is_junk)
  have a: "drop_leading_non_alnum s = s"
    unfolding drop_leading_non_alnum_def using e False by (cases s) auto
  from nf have c: "collapse_ws s = s" by (simp add: normal_form_def)
  show ?thesis using False by (simp add: normalize_text_def l j st a c)
qed

lemma normal_form_normalize_text: "normal_form (normalize_text x)"
proof (cases "x = []")
  case True
  then show ?thesis
    by (simp add: normalize_text_def normal_form_def edge_ok_def lower_fixed_def)
next
  case False
  define t2 where "t2 = strip (drop_trailing_junk (lower x))"
  define t3 where "t3 = strip (drop_leading_non_alnum t2)"
  define t4 where "t4 = collapse_ws t3"
  have n: "normalize_text x = strip t4"
    using False by (simp add: normalize_text_def t2_def t3_def t4_def)
  have "t2 = [] \<or> \<not> is_trailing_junk (last t2)"
    unfolding t2_def by (rule stage2_last)
  then have e3: "edge_ok t3" unfolding t3_def by (rule stage3_edge)
  have e4: "edge_ok t4"
  proof (cases "t3 = []")
    case True then show ?thesis by (simp add: t4_def edge_ok_def)
  next
    case ne: False
    with e3 have h: "is_ascii_alnum (hd t3)" and l: "\<not> is_trailing_junk (last t3)"
      by (auto simp: edge_ok_def)
    from h have "\<not> is_space (hd t3)" by (rule alnum_not_space)
    with ne have "hd t4 = hd t3" unfolding t4_def by (rule collapse_ws_hd)
    moreover from l have "\<not> is_space (last t3)" using space_is_junk by blast
    with ne have "last t4 = last t3" unfolding t4_def by (rule collapse_ws_last)
    ultimately show ?thesis using h l by (simp add: edge_ok_def)
  qed
  then have s4: "strip t4 = t4"
    by (intro strip_id) (auto simp: edge_ok_def alnum_not_space space_is_junk)
  have c4: "collapse_ws t4 = t4" unfolding t4_def by (rule collapse_ws_idem)
  have "set t2 \<subseteq> set (lower x)"
    unfolding t2_def using set_strip set_drop_trailing_junk by blast
  moreover have "set t3 \<subseteq> set t2"
    unfolding t3_def using set_strip set_drop_leading_non_alnum by blast
  moreover have "set t4 \<subseteq> insert CHR '' '' (set t3)"
    unfolding t4_def by (rule collapse_ws_set)
  ultimately have "set t4 \<subseteq> insert CHR '' '' (set (lower x))" by blast
  with lower_fixed_lower have "lower_fixed t4" by (rule lower_fixed_subset)
  with e4 c4 show ?thesis by (simp add: n s4 normal_form_def)
qed

text \<open>
  Claim C7. The text normalizer is idempotent on every string.
\<close>

theorem normalize_text_idempotent: "normalize_text (normalize_text x) = normalize_text x"
  by (rule normalize_text_normal_form) (rule normal_form_normalize_text)

theorem normalize_text_idempotent_witness:
  "normalize_text (normalize_text '' - Werkstudent   (m/w/d) - '')
     = normalize_text '' - Werkstudent   (m/w/d) - ''"
  by (rule normalize_text_idempotent)

lemma sublist_lstrip:
  assumes "sublist w s" and "w \<noteq> []" and "\<not> is_space (hd w)"
  shows "sublist w (lstrip s)"
proof -
  from assms(1) obtain ps ss where s: "s = ps @ w @ ss" by (auto simp: sublist_def)
  from assms(2) obtain a w' where w: "w = a # w'" by (cases w) auto
  with assms(3) have "\<not> is_space a" by simp
  then have "dropWhile is_space (ps @ a # (w' @ ss)) = dropWhile is_space ps @ a # (w' @ ss)"
    by (rule dropWhile_append3)
  then have "lstrip s = dropWhile is_space ps @ w @ ss"
    by (simp add: lstrip_def s w)
  then show ?thesis by (auto simp: sublist_def)
qed

lemma rstrip_rev: "rstrip s = rev (lstrip (rev s))"
  by (simp add: rstrip_def lstrip_def)

lemma sublist_rstrip:
  assumes "sublist w s" and "w \<noteq> []" and "\<not> is_space (last w)"
  shows "sublist w (rstrip s)"
proof -
  from assms(1) have "sublist (rev w) (rev s)" by (simp add: sublist_rev)
  moreover from assms(2) have "rev w \<noteq> []" by simp
  moreover from assms(2,3) have "\<not> is_space (hd (rev w))" by (simp add: hd_rev)
  ultimately have "sublist (rev w) (lstrip (rev s))" by (rule sublist_lstrip)
  then have "sublist (rev (rev w)) (rev (lstrip (rev s)))" by (simp only: sublist_rev)
  then show ?thesis by (simp add: rstrip_rev)
qed

lemma sublist_strip:
  "sublist w s \<Longrightarrow> w \<noteq> [] \<Longrightarrow> \<not> is_space (hd w) \<Longrightarrow> \<not> is_space (last w) \<Longrightarrow> sublist w (strip s)"
  by (simp add: strip_def sublist_lstrip sublist_rstrip)

lemma lower_lstrip: "lower (lstrip s) = lstrip (lower s)"
  by (simp add: lower_def lstrip_def dropWhile_map comp_def is_space_lower_char)

lemma lower_rstrip: "lower (rstrip s) = rstrip (lower s)"
  by (simp add: lower_def rstrip_def dropWhile_map comp_def is_space_lower_char rev_map)

lemma lower_strip: "lower (strip s) = strip (lower s)"
  by (simp add: strip_def lower_lstrip lower_rstrip)

lemma werkstudent_edges:
  "\<not> is_space (hd ''werkstudent'')" "\<not> is_space (last ''werkstudent'')"
  "\<not> is_space (hd ''working student'')" "\<not> is_space (last ''working student'')"
  by (simp_all add: is_space_def in_range_def cp_def)

lemma mentions_werkstudent_strip: "mentions_werkstudent t \<Longrightarrow> mentions_werkstudent (strip t)"
  unfolding mentions_werkstudent_def lower_strip
  using sublist_strip[of "''werkstudent''" "lower t"] sublist_strip[of "''working student''" "lower t"]
    werkstudent_edges by auto

lemma parse_titles_mention: "t \<in> set (parse_titles sep r) \<Longrightarrow> mentions_werkstudent t"
  by (auto simp: parse_titles_def mentions_werkstudent_strip)

lemma in_set_slice_toD: "t \<in> set (slice_to xs n) \<Longrightarrow> t \<in> set xs"
  by (auto simp: slice_to_def dest: in_set_takeD split: if_splits)

lemma length_slice_to: "0 \<le> n \<Longrightarrow> int (length (slice_to xs n)) \<le> n"
  by (simp add: slice_to_def)

lemma suggest_member:
  assumes "t \<in> set (suggest_job_titles_from_resume p g r n)"
  shows "mentions_werkstudent t"
proof (cases "g (p r n)")
  case None
  with assms show ?thesis
    by (simp add: suggest_job_titles_from_resume_def split: if_splits)
next
  case (Some resp)
  with assms have "t \<in> set (slice_to (parse_titles CHR '','' resp) n)
      \<or> t \<in> set (slice_to (parse_titles (CHR 0x0A) resp) n)"
    by (simp add: suggest_job_titles_from_resume_def Let_def split: if_splits)
  then show ?thesis
  proof
    assume "t \<in> set (slice_to (parse_titles CHR '','' resp) n)"
    then have "t \<in> set (parse_titles CHR '','' resp)" by (rule in_set_slice_toD)
    then show ?thesis by (rule parse_titles_mention)
  next
    assume "t \<in> set (slice_to (parse_titles (CHR 0x0A) resp) n)"
    then have "t \<in> set (parse_titles (CHR 0x0A) resp)" by (rule in_set_slice_toD)
    then show ?thesis by (rule parse_titles_mention)
  qed
qed

text \<open>
  Claim C10, as amended. Every title returned by the role-suggestion parser mentions
  \<open>werkstudent\<close> or \<open>working student\<close> in lower case; when \<open>num_suggestions\<close> is not
  negative the list has at most \<open>num_suggestions\<close> elements; an empty resume, a missing or
  empty answer of the service, and an answer in which neither the comma split nor the
  newline split finds a title, all give the empty list.
\<close>

theorem suggestions_relevant_and_bounded:
  "(\<forall>t \<in> set (suggest_job_titles_from_resume p g r n). mentions_werkstudent t)
   \<and> (0 \<le> n \<longrightarrow> int (length (suggest_job_titles_from_resume p g r n)) \<le> n)
   \<and> suggest_job_titles_from_resume p g [] n = []
   \<and> (g (p r n) = None \<or> g (p r n) = Some [] \<longrightarrow> suggest_job_titles_from_resume p g r n = [])
   \<and> (g (p r n) = Some t \<and> parse_titles CHR '','' t = [] \<and> parse_titles (CHR 0x0A) t = []
        \<longrightarrow> suggest_job_titles_from_resume p g r n = [])"
proof (intro conjI)
  show "\<forall>t \<in> set (suggest_job_titles_from_resume p g r n). mentions_werkstudent t"
    using suggest_member by blast
  show "0 \<le> n \<longrightarrow> int (length (suggest_job_titles_from_resume p g r n)) \<le> n"
    by (auto simp: suggest_job_titles_from_resume_def Let_def length_slice_to split: option.splits)
  show "suggest_job_titles_from_resume p g [] n = []"
    by (simp add: suggest_job_titles_from_resume_def)
  show "g (p r n) = None \<or> g (p r n) = Some [] \<longrightarrow> suggest_job_titles_from_resume p g r n = []"
    by (auto simp: suggest_job_titles_from_resume_def)
  show "g (p r n) = Some t \<and> parse_titles CHR '','' t = [] \<and> parse_titles (CHR 0x0A) t = []
        \<longrightarrow> suggest_job_titles_from_resume p g r n = []"
    by (auto simp: suggest_job_titles_from_resume_def)
qed

text \<open>The theorem at three answers of the service: a comma-separated list with one
  irrelevant entry and more titles than asked for, no answer, and an answer without any
  title.\<close>

theorem suggestions_relevant_and_bounded_witness:
  "suggest_job_titles_from_resume (\<lambda>r n. r) (\<lambda>p. Some demo_response) ''resume'' 2
     = [''Werkstudent Data Science'', ''Werkstudent DevOps'']
   \<and> mentions_werkstudent ''Werkstudent Data Science''
   \<and> mentions_werkstudent ''Werkstudent DevOps''
   \<and> int (length [''Werkstudent Data Science'', ''Werkstudent DevOps'']) \<le> 2
   \<and> suggest_job_titles_from_resume (\<lambda>r n. r) (\<lambda>p. None) ''resume'' 2 = []
   \<and> parse_titles CHR '','' ''Data Analyst, DevOps'' = []
   \<and> parse_titles (CHR 0x0A) ''Data Analyst, DevOps'' = []
   \<and> suggest_job_titles_from_resume (\<lambda>r n. r) (\<lambda>p. Some ''Data Analyst, DevOps'') ''resume'' 2 = []"
proof -
  have e: "suggest_job_titles_from_resume (\<lambda>r n. r) (\<lambda>p. Some demo_response) ''resume'' 2
     = [''Werkstudent Data Science'', ''Werkstudent DevOps'']"
    unfolding demo_response_def by code_simp
  have p1: "parse_titles CHR '','' ''Data Analyst, DevOps'' = []" by code_simp
  have p2: "parse_titles (CHR 0x0A) ''Data Analyst, DevOps'' = []" by code_simp
  note a = suggestions_relevant_and_bounded
             [of "\<lambda>r n. r" "\<lambda>p. Some demo_response" "''resume''" 2]
  note b = suggestions_relevant_and_bounded [of "\<lambda>r n. r" "\<lambda>p. None" "''resume''" 2]
  note c = suggestions_relevant_and_bounded
             [of "\<lambda>r n. r" "\<lambda>p. Some ''Data Analyst, DevOps''" "''resume''" 2
                 "''Data Analyst, DevOps''"]
  from a e have "mentions_werkstudent ''Werkstudent Data Science''
      \<and> mentions_werkstudent ''Werkstudent DevOps''"
    by simp
  moreover from a e have "int (length [''Werkstudent Data Science'', ''Werkstudent DevOps'']) \<le> 2"
    by simp
  moreover from b have "suggest_job_titles_from_resume (\<lambda>r n. r) (\<lambda>p. None) ''resume'' 2 = []"
    by simp
  moreover from c p1 p2
  have "suggest_job_titles_from_resume (\<lambda>r n. r) (\<lambda>p. Some ''Data Analyst, DevOps'') ''resume'' 2 = []"
    by simp
  ultimately show ?thesis using e p1 p2 by simp
qed

text \<open>Claim C10 as stated fails for a negative \<open>num_suggestions\<close>: the slice
  \<open>[:-1]\<close> of three titles keeps two of them.\<close>

theorem suggestions_bound_counterexample:
  "\<not> int (length (suggest_job_titles_from_resume (\<lambda>r n. r)
        (\<lambda>p. Some ''Werkstudent Data Science, Werkstudent DevOps, Werkstudent IT-Support'')
        ''resume'' (- 1))) \<le> - 1"
  by code_simp

text \<open>
  Claim C8. Whatever the suggestion, a found title without \<open>werkstudent\<close> and without
  \<open>working student\<close> in its lower-cased text does not match.
\<close>

theorem title_requires_werkstudent:
  "\<not> sublist ''werkstudent'' (lower T) \<Longrightarrow> \<not> sublist ''working student'' (lower T)
   \<Longrightarrow> \<not> title_matches_suggestion T S"
  by (simp add: title_matches_suggestion_def Let_def)

text \<open>A title that holds every keyword of the suggestion but not the marker.\<close>

theorem title_requires_werkstudent_witness:
  "\<not> sublist ''werkstudent'' (lower ''Data Analyst Python'')
   \<and> \<not> sublist ''working student'' (lower ''Data Analyst Python'')
   \<and> \<not> title_matches_suggestion ''Data Analyst Python'' ''Werkstudent Data Analyst''"
proof -
  have h1: "\<not> sublist ''werkstudent'' (lower ''Data Analyst Python'')" by code_simp
  have h2: "\<not> sublist ''working student'' (lower ''Data Analyst Python'')" by code_simp
  show ?thesis using h1 h2 title_requires_werkstudent[OF h1 h2] by blast
qed

text \<open>Claim C6 as stated fails: the normalizer keeps the gender marker of the first
  title, apart from its closing parenthesis.\<close>

theorem normalize_variants_counterexample:
  "normalize_text ''  Werkstudent (m/w/d) - '' \<noteq> normalize_text ''WERKSTUDENT''"
  by code_simp

text \<open>
  Claim C6, as amended. The two titles are not mapped to equal strings: the first is
  normalized to \<open>werkstudent (m/w/d\<close> (lower case, without the leading spaces and the
  trailing run \<open>) - \<close>, with the rest of the gender marker kept), the second to
  \<open>werkstudent\<close>.
\<close>

theorem normalize_variants:
  "normalize_text ''  Werkstudent (m/w/d) - '' = ''werkstudent (m/w/d''
   \<and> normalize_text ''WERKSTUDENT'' = ''werkstudent''"
  by code_simp

section \<open>Properties of the scraping loop\<close>

lemma dict_get_set: "dict_get (dict_set d k v) k' = (if k' = k then v else dict_get d k')"
  by (simp add: dict_get_def dict_set_def update_conv')

lemma url_of_set_description: "url_of (dict_set d ''description'' v) = url_of d"
  by (simp add: url_of_def dict_get_set)

lemma url_of_update_details:
  "url_of (dict_update d [(''url'', Some u), (''description'', x)]) = Some u"
  by (simp add: url_of_def dict_update_def dict_get_def update_conv')

lemma appended_fresh_refl: "appended_fresh s s"
  by (simp add: appended_fresh_def)

lemma appended_fresh_tick: "appended_fresh s (tick s)"
  by (simp add: appended_fresh_def tick_def)

lemma appended_fresh_trans:
  assumes "appended_fresh s1 s2" and "appended_fresh s2 s3"
  shows "appended_fresh s1 s3"
proof -
  from assms(1) obtain n1 where
    sub1: "processed_job_urls s1 \<subseteq> processed_job_urls s2" and
    j1: "all_found_jobs s2 = all_found_jobs s1 @ n1" and
    d1: "distinct (map url_of n1)" and
    f1: "\<forall>j \<in> set n1. \<exists>u. url_of j = Some u \<and> u \<notin> processed_job_urls s1
                          \<and> u \<in> processed_job_urls s2"
    unfolding appended_fresh_def by blast
  from assms(2) obtain n2 where
    sub2: "processed_job_urls s2 \<subseteq> processed_job_urls s3" and
    j2: "all_found_jobs s3 = all_found_jobs s2 @ n2" and
    d2: "distinct (map url_of n2)" and
    f2: "\<forall>j \<in> set n2. \<exists>u. url_of j = Some u \<and> u \<notin> processed_job_urls s2
                          \<and> u \<in> processed_job_urls s3"
    unfolding appended_fresh_def by blast
  have disj: "set (map url_of n1) \<inter> set (map url_of n2) = {}"
  proof (rule ccontr)
    assume "set (map url_of n1) \<inter> set (map url_of n2) \<noteq> {}"
    then obtain a b where ab: "a \<in> set n1" "b \<in> set n2" "url_of a = url_of b" by auto
    from f1 ab(1) obtain u where u: "url_of a = Some u" "u \<in> processed_job_urls s2" by blast
    from f2 ab(2) obtain v where v: "url_of b = Some v" "v \<notin> processed_job_urls s2" by blast
    from ab(3) u(1) v(1) have "u = v" by simp
    with u(2) v(2) show False by simp
  qed
  have "all_found_jobs s3 = all_found_jobs s1 @ (n1 @ n2)" by (simp add: j1 j2)
  moreover have "distinct (map url_of (n1 @ n2))" using d1 d2 disj by simp
  moreover have "\<forall>j \<in> set (n1 @ n2). \<exists>u. url_of j = Some u \<and> u \<notin> processed_job_urls s1
                          \<and> u \<in> processed_job_urls s3"
    using f1 f2 sub1 sub2 by auto blast+
  moreover have "processed_job_urls s1 \<subseteq> processed_job_urls s3" using sub1 sub2 by blast
  ultimately show ?thesis unfolding appended_fresh_def by blast
qed

lemma appended_fresh_record:
  assumes "url_of job_card = Some job_url" and "job_url \<notin> processed_job_urls s"
  shows "appended_fresh s (record_job job_card job_url (tick s))"
  unfolding appended_fresh_def record_job_def tick_def using assms
  by (auto intro!: exI[of _ "[job_card]"])

lemma linkedin_card_fresh: "appended_fresh s (snd (linkedin_card src role job_card s))"
proof (cases "dict_get job_card ''url''")
  case None
  then show ?thesis by (simp add: linkedin_card_def appended_fresh_refl)
next
  case (Some job_url)
  show ?thesis
  proof (cases "job_url = [] \<or> job_url \<in> processed_job_urls s
                \<or> \<not> passes_filter (dict_get_default job_card ''title'' []) role")
    case True
    with Some show ?thesis by (auto simp: linkedin_card_def appended_fresh_refl)
  next
    case False
    then have fresh: "job_url \<notin> processed_job_urls s" by simp
    show ?thesis
    proof (cases "description_of src (clock s) job_url")
      case (Inl e)
      with Some False show ?thesis
        by (simp add: linkedin_card_def get_job_details_def appended_fresh_tick)
    next
      case (Inr d)
      define job_card' where "job_card' =
         (let c = dict_update job_card [(''url'', Some job_url), (''description'', d)]
          in if \<not> truthy (dict_get [(''url'', Some job_url), (''description'', d)] ''description'')
             then dict_set c ''description'' (Some ''Description not fetched/found.'')
             else c)"
      have u: "url_of job_card' = Some job_url"
        by (simp add: job_card'_def Let_def url_of_set_description url_of_update_details)
      have "snd (linkedin_card src role job_card s) = record_job job_card' job_url (tick s)"
        using Some False Inr
        by (simp add: linkedin_card_def get_job_details_def job_card'_def Let_def)
      with u fresh show ?thesis by (simp add: appended_fresh_record)
    qed
  qed
qed

lemma stepstone_card_fresh: "appended_fresh s (snd (stepstone_card src role job_card s))"
proof (cases "dict_get job_card ''url''")
  case None
  then show ?thesis by (simp add: stepstone_card_def appended_fresh_refl)
next
  case (Some job_url)
  show ?thesis
  proof (cases "job_url = [] \<or> job_url \<in> processed_job_urls s
                \<or> \<not> passes_filter (dict_get_default job_card ''title'' []) role")
    case True
    with Some show ?thesis by (auto simp: stepstone_card_def appended_fresh_refl)
  next
    case False
    then have fresh: "job_url \<notin> processed_job_urls s" by simp
    from Some have u0: "url_of job_card = Some job_url" by (simp add: url_of_def)
    show ?thesis
    proof (cases "description_of src (clock s) job_url")
      case (Inl e)
      with Some False show ?thesis
        by (simp add: stepstone_card_def get_job_details_def appended_fresh_tick)
    next
      case (Inr d)
      define job_card' where "job_card' =
         (if dict_get [(''url'', Some job_url), (''description'', d)] ''description''
               \<noteq> Some ''Description not found.''
          then dict_update job_card [(''url'', Some job_url), (''description'', d)]
          else dict_set job_card ''description''
                 (Some ''Description not found or fetching failed.''))"
      have u: "url_of job_card' = Some job_url"
        using u0 by (simp add: job_card'_def url_of_set_description url_of_update_details)
      have "snd (stepstone_card src role job_card s) = record_job job_card' job_url (tick s)"
        using Some False Inr
        by (simp add: stepstone_card_def get_job_details_def job_card'_def Let_def)
      with u fresh show ?thesis by (simp add: appended_fresh_record)
    qed
  qed
qed

lemma for_cards_fresh:
  assumes "\<And>c s. appended_fresh s (snd (body c s))"
  shows "appended_fresh s (for_cards body cards s)"
proof (induction cards arbitrary: s)
  case Nil
  show ?case by (simp add: appended_fresh_refl)
next
  case (Cons c cards)
  obtain r s' where b: "body c s = (r, s')" by (cases "body c s")
  with assms[of s c] have step: "appended_fresh s s'" by simp
  show ?case
  proof (cases r)
    case None
    with b have "for_cards body (c # cards) s = for_cards body cards s'" by simp
    with step Cons.IH[of s'] show ?thesis by (auto intro: appended_fresh_trans)
  next
    case (Some e)
    with b step show ?thesis by simp
  qed
qed

lemma search_block_fresh:
  assumes "\<And>src role c s. appended_fresh s (snd (card_body src role c s))"
  shows "appended_fresh s (search_block card_body scraper n location role s)"
proof (cases "search_jobs scraper (clock s) role location n")
  case (Inl e)
  then show ?thesis by (simp add: search_block_def appended_fresh_tick)
next
  case (Inr jobs)
  have "appended_fresh (tick s) (for_cards (card_body scraper role) jobs (tick s))"
    by (rule for_cards_fresh) (rule assms)
  with appended_fresh_tick have "appended_fresh s (for_cards (card_body scraper role) jobs (tick s))"
    by (rule appended_fresh_trans)
  with Inr show ?thesis by (simp add: search_block_def appended_fresh_tick)
qed

lemma search_combo_fresh: "appended_fresh s (search_combo li ss n location role s)"
  unfolding search_combo_def
  by (rule appended_fresh_trans[OF search_block_fresh search_block_fresh])
     (rule linkedin_card_fresh stepstone_card_fresh)+

lemma fold_fresh:
  assumes "\<And>x s. appended_fresh s (f x s)"
  shows "appended_fresh s (fold f xs s)"
proof (induction xs arbitrary: s)
  case Nil
  show ?case by (simp add: appended_fresh_refl)
next
  case (Cons x xs)
  from assms[of s x] Cons.IH[of "f x s"] show ?case
    by (auto intro: appended_fresh_trans)
qed

lemma scrape_from_fresh: "appended_fresh s (scrape_from li ss n locations roles s)"
  unfolding scrape_from_def
  by (intro fold_fresh search_combo_fresh)

text \<open>
  Claim C9. From any moment \<open>s\<close> of a run on, whatever the two sources answer: the seen
  set only grows, the job list is only appended to, and no appended job carries a URL
  that was in the seen set at \<open>s\<close>. For the whole run, which starts with both
  collections empty, every URL occurs at most once in the combined job list.
\<close>

theorem seen_urls_never_reprocessed:
  "processed_job_urls s \<subseteq> processed_job_urls (scrape_from li ss n locations roles s)
   \<and> (\<exists>new. all_found_jobs (scrape_from li ss n locations roles s) = all_found_jobs s @ new
          \<and> (\<forall>j \<in> set new. \<exists>u. url_of j = Some u \<and> u \<notin> processed_job_urls s))
   \<and> distinct (map url_of (all_found_jobs (scrape li ss n locations roles)))"
proof -
  have a: "appended_fresh s (scrape_from li ss n locations roles s)"
    by (rule scrape_from_fresh)
  have b: "appended_fresh \<lparr>all_found_jobs = [], processed_job_urls = {}, clock = 0\<rparr>
             (scrape li ss n locations roles)"
    unfolding scrape_def by (rule scrape_from_fresh)
  from a have "processed_job_urls s \<subseteq> processed_job_urls (scrape_from li ss n locations roles s)"
    by (simp add: appended_fresh_def)
  moreover from a have "\<exists>new. all_found_jobs (scrape_from li ss n locations roles s) = all_found_jobs s @ new
          \<and> (\<forall>j \<in> set new. \<exists>u. url_of j = Some u \<and> u \<notin> processed_job_urls s)"
    unfolding appended_fresh_def by blast
  moreover from b have "distinct (map url_of (all_found_jobs (scrape li ss n locations roles)))"
    unfolding appended_fresh_def by auto
  ultimately show ?thesis by blast
qed

text \<open>A run over two locations in which LinkedIn lists a posting twice and StepStone
  lists it again: it is collected once.\<close>

theorem seen_urls_never_reprocessed_witness:
  "map url_of (all_found_jobs (scrape demo_linkedin demo_stepstone 5 [''Bonn'', ''Koeln'']
        [''Werkstudent Data''])) = [Some ''https://li/1'', Some ''https://ss/7'']
   \<and> distinct (map url_of (all_found_jobs (scrape demo_linkedin demo_stepstone 5
        [''Bonn'', ''Koeln''] [''Werkstudent Data''])))"
proof -
  have run: "map url_of (all_found_jobs (scrape demo_linkedin demo_stepstone 5
        [''Bonn'', ''Koeln''] [''Werkstudent Data'']))
      = [Some ''https://li/1'', Some ''https://ss/7'']"
    by code_simp
  from seen_urls_never_reprocessed
         [of "\<lparr>all_found_jobs = [], processed_job_urls = {}, clock = 0\<rparr>"
             demo_linkedin demo_stepstone 5 "[''Bonn'', ''Koeln'']" "[''Werkstudent Data'']"]
  have "distinct (map url_of (all_found_jobs (scrape demo_linkedin demo_stepstone 5
        [''Bonn'', ''Koeln''] [''Werkstudent Data''])))"
    by blast
  with run show ?thesis by blast
qed

section \<open>Reasoning about traces\<close>

lemma emitsI:
  "(\<And>s. \<exists>evs. trace (snd (m s)) = trace s @ evs \<and> list_all P evs) \<Longrightarrow> emits P m"
  by (simp add: emits_def)

lemma emitsD:
  "emits P m \<Longrightarrow> \<exists>evs. trace (snd (m s)) = trace s @ evs \<and> list_all P evs"
  by (simp add: emits_def)

lemma emits_ret: "emits P (ret x)"
  by (simp add: emits_def ret_def)

lemma emits_raise: "emits P (raise e)"
  by (simp add: emits_def raise_def)

lemma emits_observe: "emits P (observe f)"
  by (simp add: emits_def observe_def)

lemma emits_modify: "(\<And>s. trace (f s) = trace s) \<Longrightarrow> emits P (modify f)"
  by (simp add: emits_def modify_def)

lemma emits_count_up: "emits P count_up"
  unfolding count_up_def by (rule emits_modify) simp

lemma emits_bnd:
  assumes "emits P m" and "\<And>x. emits P (f x)"
  shows "emits P (bnd m f)"
proof (rule emitsI)
  fix s
  obtain r s' where ms: "m s = (r, s')" by (cases "m s")
  from emitsD[OF assms(1), of s] ms obtain evs1 where
    e1: "trace s' = trace s @ evs1" "list_all P evs1" by auto
  show "\<exists>evs. trace (snd (bnd m f s)) = trace s @ evs \<and> list_all P evs"
  proof (cases r)
    case (Inl e)
    with ms e1 show ?thesis by (auto simp: bnd_def)
  next
    case (Inr x)
    from emitsD[OF assms(2), of x s'] obtain evs2 where
      e2: "trace (snd (f x s')) = trace s' @ evs2" "list_all P evs2" by auto
    from Inr ms have "bnd m f s = f x s'" by (simp add: bnd_def)
    with e1 e2 have "trace (snd (bnd m f s)) = trace s @ (evs1 @ evs2) \<and> list_all P (evs1 @ evs2)"
      by simp
    then show ?thesis by blast
  qed
qed

lemma emits_andthen: "emits P m \<Longrightarrow> emits P n \<Longrightarrow> emits P (andthen m n)"
  unfolding andthen_def by (rule emits_bnd)

lemma emits_try_except:
  assumes "emits P m" and "\<And>e. emits P (h e)"
  shows "emits P (try_except m h)"
proof (rule emitsI)
  fix s
  obtain r s' where ms: "m s = (r, s')" by (cases "m s")
  from emitsD[OF assms(1), of s] ms obtain evs1 where
    e1: "trace s' = trace s @ evs1" "list_all P evs1" by auto
  show "\<exists>evs. trace (snd (try_except m h s)) = trace s @ evs \<and> list_all P evs"
  proof (cases r)
    case (Inr x)
    with ms e1 show ?thesis by (auto simp: try_except_def)
  next
    case (Inl e)
    from emitsD[OF assms(2), of e s'] obtain evs2 where
      e2: "trace (snd (h e s')) = trace s' @ evs2" "list_all P evs2" by auto
    from Inl ms have "try_except m h s = h e s'" by (simp add: try_except_def)
    with e1 e2 have "trace (snd (try_except m h s)) = trace s @ (evs1 @ evs2)
        \<and> list_all P (evs1 @ evs2)"
      by simp
    then show ?thesis by blast
  qed
qed

lemma emits_try_except_timeout:
  assumes "emits P m" and "emits P h"
  shows "emits P (try_except_timeout m h)"
proof (rule emitsI)
  fix s
  obtain r s' where ms: "m s = (r, s')" by (cases "m s")
  from emitsD[OF assms(1), of s] ms obtain evs1 where
    e1: "trace s' = trace s @ evs1" "list_all P evs1" by auto
  from emitsD[OF assms(2), of s'] obtain evs2 where
    e2: "trace (snd (h s')) = trace s' @ evs2" "list_all P evs2" by auto
  show "\<exists>evs. trace (snd (try_except_timeout m h s)) = trace s @ evs \<and> list_all P evs"
  proof (cases "r = Inl PlaywrightTimeoutError")
    case True
    with ms have "try_except_timeout m h s = h s'" by (simp add: try_except_timeout_def)
    with e1 e2 have "trace (snd (try_except_timeout m h s)) = trace s @ (evs1 @ evs2)
        \<and> list_all P (evs1 @ evs2)"
      by simp
    then show ?thesis by blast
  next
    case False
    with ms have "snd (try_except_timeout m h s) = s'"
      by (auto simp: try_except_timeout_def split: sum.splits exn.splits)
    with e1 show ?thesis by auto
  qed
qed

lemma emits_attempt: "emits P m \<Longrightarrow> emits P (attempt m)"
  unfolding attempt_def by (rule emits_try_except) (simp_all add: emits_ret)

lemma emits_ask_bool: "P ev \<Longrightarrow> emits P (ask_bool w ev)"
  by (simp add: emits_def ask_bool_def log_event_def)

lemma emits_ask_text: "P ev \<Longrightarrow> emits P (ask_text w ev)"
  by (simp add: emits_def ask_text_def log_event_def)

lemma emits_ask_count: "P ev \<Longrightarrow> emits P (ask_count w ev)"
  by (simp add: emits_def ask_count_def log_event_def)

lemma emits_ask_page: "P ev \<Longrightarrow> emits P (ask_page w ev)"
  by (simp add: emits_def ask_page_def log_event_def)

lemma emits_act: "P ev \<Longrightarrow> emits P (act w ev)"
  by (simp add: emits_def act_def log_event_def)

lemma emits_if: "emits P a \<Longrightarrow> emits P b \<Longrightarrow> emits P (if c then a else b)"
  by simp

lemma emits_option:
  "emits P a \<Longrightarrow> (\<And>x. emits P (f x)) \<Longrightarrow> emits P (case v of None \<Rightarrow> a | Some x \<Rightarrow> f x)"
  by (cases v) simp_all

lemma emits_sum:
  "(\<And>e. emits P (f e)) \<Longrightarrow> (\<And>x. emits P (g x))
   \<Longrightarrow> emits P (case v of Inl e \<Rightarrow> f e | Inr x \<Rightarrow> g x)"
  by (cases v) simp_all

lemma emits_all_of:
  assumes "P (All_of l)" and "\<And>n. emits P (f (map (Nth l) [0..<n]))"
  shows "emits P (bnd (all_of w l) f)"
proof -
  have "bnd (all_of w l) f = bnd (ask_count w (All_of l)) (\<lambda>n. f (map (Nth l) [0..<n]))"
    by (auto simp: all_of_def bnd_def ret_def fun_eq_iff split: prod.splits sum.splits)
  with assms show ?thesis by (simp add: emits_bnd emits_ask_count)
qed

lemmas emits_rules =
  emits_ret emits_raise emits_observe emits_count_up emits_andthen emits_try_except
  emits_try_except_timeout emits_attempt emits_if emits_option emits_sum emits_bnd

lemma emits_in_order: "list_all (emits P) ms \<Longrightarrow> emits P (in_order ms)"
  by (induction ms) (simp_all add: emits_ret emits_andthen)

text \<open>Running a program on a state, one step at a time.\<close>

lemma run_simps:
  "ret x s = (Inr x, s)"
  "raise e s = (Inl e, s)"
  "bnd m f s = (case m s of (Inl e, s') \<Rightarrow> (Inl e, s') | (Inr x, s') \<Rightarrow> f x s')"
  "andthen u n s = (case u s of (Inl e, s') \<Rightarrow> (Inl e, s') | (Inr x, s') \<Rightarrow> n s')"
  "try_except m h s = (case m s of (Inl e, s') \<Rightarrow> h e s' | (Inr x, s') \<Rightarrow> (Inr x, s'))"
  "try_except_timeout m k s =
     (case m s of (Inl e, s') \<Rightarrow> (if e = PlaywrightTimeoutError then k s' else (Inl e, s'))
                | (Inr x, s') \<Rightarrow> (Inr x, s'))"
  "attempt u s = (case u s of (Inl e, s') \<Rightarrow> (Inr (), s') | (Inr x, s') \<Rightarrow> (Inr (), s'))"
  "ask_bool w ev s = (bool_of w (trace s) ev, log_event ev s)"
  "ask_text w ev s = (text_of w (trace s) ev, log_event ev s)"
  "ask_count w ev s = (count_of w (trace s) ev, log_event ev s)"
  "ask_page w ev s = (page_of w (trace s) ev, log_event ev s)"
  "act w ev s = (case done_of w (trace s) ev of None \<Rightarrow> Inr () | Some e \<Rightarrow> Inl e, log_event ev s)"
  "observe g s = (Inr (g s), s)"
  "modify c s = (Inr (), c s)"
  by (auto simp: ret_def raise_def bnd_def andthen_def try_except_def try_except_timeout_def
        attempt_def ask_bool_def ask_text_def ask_count_def ask_page_def act_def observe_def
        modify_def split: prod.splits sum.splits exn.splits)

section \<open>Properties of the form filler\<close>

lemma selector_for_simps:
  "selector_for ''first_name'' = sel_first_name"
  "selector_for ''last_name'' = sel_last_name"
  "selector_for ''email'' = sel_email"
  "selector_for ''phone'' = sel_phone"
  "selector_for ''resume_upload'' = sel_resume_upload"
  "selector_for ''cover_letter_upload'' = sel_cover_letter_upload"
  "selector_for ''submit_button'' = sel_submit_button"
  "selector_for ''salutation'' = sel_salutation"
  "selector_for ''start_date'' = sel_start_date"
  "selector_for ''salary_expectation'' = sel_salary_expectation"
  "selector_for ''source'' = sel_source"
  "selector_for ''consent_checkbox'' = sel_consent_checkbox"
  by (simp_all add: selector_for_def FORM_SELECTORS_def)

lemma not_submit_selector:
  "sel_first_name \<noteq> sel_submit_button"
  "sel_last_name \<noteq> sel_submit_button"
  "sel_email \<noteq> sel_submit_button"
  "sel_phone \<noteq> sel_submit_button"
  "sel_resume_upload \<noteq> sel_submit_button"
  "sel_salutation \<noteq> sel_submit_button"
  "sel_start_date \<noteq> sel_submit_button"
  "sel_salary_expectation \<noteq> sel_submit_button"
  "sel_source \<noteq> sel_submit_button"
  "sel_consent_checkbox \<noteq> sel_submit_button"
  by (simp_all add: sel_first_name_def sel_last_name_def sel_email_def sel_phone_def
        sel_resume_upload_def sel_salutation_def sel_start_date_def
        sel_salary_expectation_def sel_source_def sel_consent_checkbox_def
        sel_submit_button_def)

lemma not_start_date_selector:
  "sel_first_name \<noteq> sel_start_date"
  "sel_last_name \<noteq> sel_start_date"
  "sel_email \<noteq> sel_start_date"
  "sel_phone \<noteq> sel_start_date"
  "sel_salary_expectation \<noteq> sel_start_date"
  by (simp_all add: sel_first_name_def sel_last_name_def sel_email_def sel_phone_def
        sel_salary_expectation_def sel_start_date_def)

lemma ok_reads:
  "form_event_ok w page (Is_visible l)"
  "form_event_ok w page (Is_enabled l)"
  "form_event_ok w page (Is_checked l)"
  "form_event_ok w page (Text_content l)"
  "form_event_ok w page (Get_attribute l n)"
  "form_event_ok w page (All_of l)"
  by (simp_all add: form_event_ok_def start_date_written_def)

lemma ok_acts:
  "l \<noteq> field_locator page ''submit_button'' \<Longrightarrow> form_event_ok w page (Select_option l b)"
  "l \<noteq> field_locator page ''submit_button'' \<Longrightarrow> form_event_ok w page (Set_input_files l f)"
  "l \<noteq> field_locator page ''submit_button'' \<Longrightarrow> form_event_ok w page (Check l)"
  "l \<noteq> field_locator page ''submit_button'' \<Longrightarrow> form_event_ok w page (Evaluate l js)"
  "l \<noteq> field_locator page ''submit_button'' \<Longrightarrow> l \<noteq> field_locator page ''start_date''
     \<Longrightarrow> form_event_ok w page (Fill l v)"
  by (simp_all add: form_event_ok_def start_date_written_def)

lemma ok_start_date:
  "target_start_date (date_today w) = Inr target
   \<Longrightarrow> form_event_ok w page (Fill (field_locator page ''start_date'') (strftime_dmy target))"
  by (simp add: form_event_ok_def start_date_written_def field_locator_def
        selector_for_simps not_submit_selector)

lemma field_not_submit:
  "field_locator page ''first_name'' \<noteq> field_locator page ''submit_button''"
  "field_locator page ''last_name'' \<noteq> field_locator page ''submit_button''"
  "field_locator page ''email'' \<noteq> field_locator page ''submit_button''"
  "field_locator page ''phone'' \<noteq> field_locator page ''submit_button''"
  "field_locator page ''resume_upload'' \<noteq> field_locator page ''submit_button''"
  "field_locator page ''salutation'' \<noteq> field_locator page ''submit_button''"
  "field_locator page ''salary_expectation'' \<noteq> field_locator page ''submit_button''"
  "field_locator page ''source'' \<noteq> field_locator page ''submit_button''"
  "field_locator page ''consent_checkbox'' \<noteq> field_locator page ''submit_button''"
  by (simp_all add: field_locator_def selector_for_simps not_submit_selector)

lemma field_not_start_date:
  "field_locator page ''first_name'' \<noteq> field_locator page ''start_date''"
  "field_locator page ''last_name'' \<noteq> field_locator page ''start_date''"
  "field_locator page ''email'' \<noteq> field_locator page ''start_date''"
  "field_locator page ''phone'' \<noteq> field_locator page ''start_date''"
  "field_locator page ''salary_expectation'' \<noteq> field_locator page ''start_date''"
  by (simp_all add: field_locator_def selector_for_simps not_start_date_selector)

lemma nth_not_field: "Nth l n \<noteq> field_locator page key"
  by (simp add: field_locator_def)

lemmas call_defs = is_visible_def is_enabled_def is_checked_def text_content_def get_attribute_def

lemmas emits_calls = emits_ask_bool emits_ask_text emits_ask_count emits_act

lemma emits_all_of_plain: "P (All_of l) \<Longrightarrow> emits P (all_of w l)"
  unfolding all_of_def by (intro emits_bnd emits_ask_count emits_ret)

lemma salutation_options_ok:
  assumes "dropdown \<noteq> field_locator page ''submit_button''"
  shows "emits (form_event_ok w page) (salutation_options w dropdown pref options)"
proof (induction options)
  case Nil
  show ?case by (simp add: emits_ret)
next
  case (Cons option rest)
  show ?case
    unfolding salutation_options.simps call_defs
    by (intro emits_rules emits_calls Cons.IH) (simp_all add: ok_reads ok_acts assms)
qed

lemma select_second_option_ok:
  assumes "dropdown \<noteq> field_locator page ''submit_button''"
  shows "emits (form_event_ok w page) (select_second_option w dropdown)"
  unfolding select_second_option_def call_defs
  by (intro emits_rules emits_calls) (simp_all add: ok_reads ok_acts assms)

lemma salutation_block_ok: "emits (form_event_ok w page) (salutation_block w page data)"
  unfolding salutation_block_def Let_def call_defs
  by (intro emits_rules emits_calls emits_all_of_plain salutation_options_ok
        select_second_option_ok)
     (simp_all add: ok_reads field_not_submit)

lemma text_field_block_ok:
  assumes "field_locator page key \<noteq> field_locator page ''submit_button''"
    and "field_locator page key \<noteq> field_locator page ''start_date''"
  shows "emits (form_event_ok w page) (text_field_block w page data key)"
  unfolding text_field_block_def Let_def call_defs
  by (intro emits_rules emits_calls) (simp_all add: ok_reads ok_acts assms)

lemma resume_block_ok: "emits (form_event_ok w page) (resume_block w page data)"
  unfolding resume_block_def Let_def call_defs
  by (intro emits_rules emits_calls) (simp_all add: ok_reads ok_acts field_not_submit)

lemma start_date_block_ok: "emits (form_event_ok w page) (start_date_block w page)"
proof (cases "target_start_date (date_today w)")
  case (Inl e)
  then show ?thesis
    unfolding start_date_block_def Let_def call_defs
    by (simp add: emits_attempt emits_bnd emits_ask_bool emits_raise emits_ret ok_reads)
next
  case (Inr target)
  then show ?thesis
    unfolding start_date_block_def Let_def call_defs
    by (simp add: emits_attempt emits_bnd emits_ask_bool emits_andthen emits_act emits_count_up
          emits_ret ok_reads ok_start_date)
qed

lemma matches_any_ok:
  assumes "file_input \<noteq> field_locator page ''submit_button''"
  shows "emits (form_event_ok w page) (matches_any w file_input sels)"
proof (induction sels)
  case Nil
  show ?case by (simp add: emits_ret)
next
  case (Cons sel rest)
  show ?case
    unfolding matches_any.simps
    by (intro emits_rules emits_calls Cons.IH) (simp_all add: ok_acts assms)
qed

lemma is_cover_letter_input_ok:
  assumes "file_input \<noteq> field_locator page ''submit_button''"
  shows "emits (form_event_ok w page) (is_cover_letter_input w file_input)"
  unfolding is_cover_letter_input_def Let_def
  by (intro emits_rules matches_any_ok assms)

lemma upload_placeholder_ok:
  assumes "file_input \<noteq> field_locator page ''submit_button''"
  shows "emits (form_event_ok w page) (upload_placeholder w page file_input name n)"
  unfolding upload_placeholder_def call_defs
  by (intro emits_rules emits_calls) (simp_all add: ok_reads ok_acts assms)

lemma other_uploads_ok:
  assumes "list_all (\<lambda>f. f \<noteq> field_locator page ''submit_button'') file_inputs"
  shows "emits (form_event_ok w page) (other_uploads w page n i file_inputs)"
  using assms
proof (induction file_inputs arbitrary: n i)
  case Nil
  show ?case by (simp add: emits_ret)
next
  case (Cons file_input rest)
  then have f: "file_input \<noteq> field_locator page ''submit_button''"
    and r: "\<And>n i. emits (form_event_ok w page) (other_uploads w page n i rest)"
    by simp_all
  show ?case
    unfolding other_uploads.simps Let_def call_defs
    by (intro emits_rules emits_calls r is_cover_letter_input_ok upload_placeholder_ok f)
       (simp_all add: ok_reads)
qed

lemma other_uploads_block_ok: "emits (form_event_ok w page) (other_uploads_block w page)"
  unfolding other_uploads_block_def
  by (intro emits_attempt emits_all_of other_uploads_ok)
     (simp_all add: ok_reads list_all_iff nth_not_field)

lemma source_block_ok: "emits (form_event_ok w page) (source_block w page)"
  unfolding source_block_def Let_def call_defs
  by (intro emits_rules emits_calls emits_all_of_plain select_second_option_ok)
     (simp_all add: ok_reads field_not_submit)

lemma consent_block_ok: "emits (form_event_ok w page) (consent_block w page)"
  unfolding consent_block_def Let_def call_defs
  by (intro emits_rules emits_calls) (simp_all add: ok_reads ok_acts field_not_submit)

lemma submit_block_ok: "emits (form_event_ok w page) (submit_block w page)"
  unfolding submit_block_def Let_def call_defs
  by (intro emits_rules emits_calls) (simp_all add: ok_reads)

lemma fill_application_form_ok:
  "emits (form_event_ok w page) (fill_application_form w page data)"
  unfolding fill_application_form_def
  by (intro emits_bnd emits_in_order emits_ret)
     (simp add: emits_modify salutation_block_ok text_field_block_ok resume_block_ok
        start_date_block_ok other_uploads_block_ok source_block_ok consent_block_ok
        submit_block_ok field_not_submit field_not_start_date)

section \<open>Runs on concrete pages\<close>

lemmas sel_defs = sel_first_name_def sel_last_name_def sel_email_def sel_phone_def
        sel_resume_upload_def sel_salutation_def sel_start_date_def
        sel_salary_expectation_def sel_source_def sel_consent_checkbox_def
        sel_submit_button_def sel_cover_letter_upload_def

lemmas form_defs =
  fill_application_form_def salutation_block_def text_field_block_def resume_block_def
  start_date_block_def other_uploads_block_def source_block_def consent_block_def
  submit_block_def select_second_option_def count_up_def all_of_def
  field_locator_def log_event_def start_def

lemma march_15: "target_start_date \<lparr>year = 2024, month = 3, day = 15\<rparr>
    = Inr \<lparr>year = 2024, month = 5, day = 1\<rparr>"
  by (simp add: target_start_date_def plus_one_month_def days_in_month_def)

lemma may_1: "strftime_dmy \<lparr>year = 2024, month = 5, day = 1\<rparr> = ''01.05.2024''"
  by code_simp

lemma form_page_run:
  "fill_application_form form_page 0 demo_applicant start
     = (Inr PyNone, start\<lparr>trace := form_page_trace, filled_count := 2\<rparr>)"
  by (simp add: run_simps call_defs form_defs form_page_def form_page_trace_def
        demo_applicant_def dict_get_def march_15 may_1 Let_def selector_for_simps sel_defs)

lemma form_page_trace_eq:
  "trace (snd (fill_application_form form_page 0 demo_applicant start)) = form_page_trace"
  by (simp add: form_page_run)

lemmas apply_defs =
  apply_to_job_def apply_to_job_body_def close_resources_def apply_button_attempt_def
  potential_buttons_def COOKIE_SELECTORS_def PRIMARY_APPLY_SELECTORS_TEXT_def
  PRIMARY_APPLY_SELECTORS_REGEX_def OTHER_PRIMARY_APPLY_SELECTORS_def log_event_def start_def
  truthy_def

lemma listing_page_run:
  "apply_to_job listing_page url ''Werkstudent Data Analyst'' demo_applicant False None start
     = (Inr None, start\<lparr>trace := listing_trace url, context_set := True, browser_set := True,
                       cur_page := Some 0\<rparr>)"
  by (simp add: run_simps call_defs apply_defs listing_page_def listing_trace_def Let_def)

lemma listing_title: "normalize_text ''Werkstudent Data Analyst'' = ''werkstudent data analyst''"
  by code_simp

lemma listing_keywords:
  "target_keywords_of ''werkstudent data analyst'' = [''werkstudent'', ''data'', ''analyst'']"
  by code_simp

lemma listing_text:
  "keywords_present [''werkstudent'', ''data'', ''analyst'']
     (normalize_text (strip ''Werkstudent Data Analyst (m/w/d)''))"
  by code_simp

lemma listing_page_link:
  "fst (find_job_link listing_page (Page_context 0) ''Werkstudent Data Analyst'' start)
     = Inr (Some posting_link)"
  by (simp add: run_simps call_defs find_job_link_def all_of_def context_locator_def
        listing_page_def posting_link_def log_event_def start_def Let_def
        listing_title listing_keywords listing_text)

lemma listing_trace_passive: "list_all (\<lambda>e. acted_on e = None) (listing_trace url)"
  by (simp add: listing_trace_def potential_buttons_def COOKIE_SELECTORS_def
        PRIMARY_APPLY_SELECTORS_TEXT_def PRIMARY_APPLY_SELECTORS_REGEX_def
        OTHER_PRIMARY_APPLY_SELECTORS_def listing_page_def)

section \<open>The claims about the application engine\<close>

lemma completes_attempt: "completes (attempt m)"
  by (auto simp: completes_def attempt_def try_except_def ret_def split: prod.splits sum.splits)

lemma completes_ret: "completes (ret ())"
  by (simp add: completes_def ret_def)

lemma completes_modify: "completes (modify f)"
  by (simp add: completes_def modify_def)

lemma completes_andthen:
  assumes "completes m" and "completes n"
  shows "completes (andthen m n)"
  unfolding completes_def
proof
  fix s
  obtain r s' where ms: "m s = (r, s')" by (cases "m s")
  with assms(1) have "r = Inr ()" by (auto simp: completes_def dest: spec[of _ s])
  with ms have "andthen m n s = n s'" by (simp add: andthen_def bnd_def)
  with assms(2) show "fst (andthen m n s) = Inr ()" by (simp add: completes_def)
qed

lemma completes_then_ret:
  assumes "completes m"
  shows "fst (bnd m (\<lambda>d. ret x) s) = Inr x"
proof -
  obtain r s' where ms: "m s = (r, s')" by (cases "m s")
  with assms have "r = Inr ()" by (auto simp: completes_def dest: spec[of _ s])
  with ms show ?thesis by (simp add: bnd_def ret_def)
qed

lemma completes_in_order: "list_all completes ms \<Longrightarrow> completes (in_order ms)"
  by (induction ms) (simp_all add: completes_ret completes_andthen)

lemma completes_resume_block: "completes (resume_block w page data)"
  unfolding resume_block_def
  by (auto simp: completes_attempt completes_ret split: option.splits)

lemma completes_blocks:
  "completes (salutation_block w page data)"
  "completes (text_field_block w page data key)"
  "completes (start_date_block w page)"
  "completes (other_uploads_block w page)"
  "completes (source_block w page)"
  "completes (consent_block w page)"
  "completes (submit_block w page)"
  unfolding salutation_block_def text_field_block_def start_date_block_def
    other_uploads_block_def source_block_def consent_block_def submit_block_def Let_def
  by (rule completes_attempt)+

lemma target_start_date_value:
  assumes "1 \<le> month d" and "month d \<le> 12" and "target_start_date d = Inr x"
  shows "x = \<lparr>year = year d + (month d + 1) div 12, month = (month d + 1) mod 12 + 1, day = 1\<rparr>"
proof -
  have dim: "\<And>y m. min (days_in_month y m) 1 = 1"
    by (simp add: days_in_month_def)
  consider "month d \<le> 10" | "month d = 11" | "month d = 12" using assms(1,2) by linarith
  then show ?thesis
  proof cases
    case 1
    with assms(1) have "(month d + 1) div 12 = 0" "(month d + 1) mod 12 = month d + 1"
      by simp_all
    with 1 assms show ?thesis
      by (auto simp: target_start_date_def plus_one_month_def Let_def dim split: if_splits)
  next
    case 2
    with assms show ?thesis
      by (auto simp: target_start_date_def plus_one_month_def Let_def dim split: if_splits)
  next
    case 3
    with assms show ?thesis
      by (auto simp: target_start_date_def plus_one_month_def Let_def dim split: if_splits)
  qed
qed


text \<open>
  Claim C1 fails on the code. On a career page without a visible apply button that
  shows a visible link with the text of the posting, \<open>find_job_link\<close> would return that
  link; \<open>apply_to_job\<close> never calls it: after the last button probe it closes the browser
  and returns \<open>None\<close>, having clicked nothing and filled nothing.
\<close>

theorem apply_to_job_skips_job_link_search:
  "fst (find_job_link listing_page (Page_context 0) ''Werkstudent Data Analyst'' start)
     = Inr (Some posting_link)
   \<and> fst (apply_to_job listing_page ''https://careers.example.com/jobs''
            ''Werkstudent Data Analyst'' demo_applicant False None start) = Inr None
   \<and> trace (snd (apply_to_job listing_page ''https://careers.example.com/jobs''
                   ''Werkstudent Data Analyst'' demo_applicant False None start))
       = listing_trace ''https://careers.example.com/jobs''
   \<and> list_all (\<lambda>e. acted_on e = None) (listing_trace ''https://careers.example.com/jobs'')"
  by (simp add: listing_page_link listing_page_run listing_trace_passive)

text \<open>
  Claim C2 fails on the code. Whatever the page and the profile, the call of
  \<open>fill_application_form\<close> evaluates to \<open>None\<close>: the count is kept in the local variable
  \<open>filled_count\<close> and never returned. On the form page two fields are filled and the
  result is \<open>None\<close>.
\<close>

theorem fill_application_form_returns_none:
  "fst (fill_application_form w page applicant_data s) = Inr PyNone
   \<and> fst (fill_application_form form_page 0 demo_applicant start) = Inr PyNone
   \<and> filled_count (snd (fill_application_form form_page 0 demo_applicant start)) = 2"
proof (intro conjI)
  have "completes (in_order
            [modify (\<lambda>s. s\<lparr>filled_count := 0\<rparr>),
             salutation_block w page applicant_data,
             text_field_block w page applicant_data ''first_name'',
             text_field_block w page applicant_data ''last_name'',
             text_field_block w page applicant_data ''email'',
             text_field_block w page applicant_data ''phone'',
             resume_block w page applicant_data,
             start_date_block w page,
             text_field_block w page applicant_data ''salary_expectation'',
             other_uploads_block w page,
             source_block w page,
             consent_block w page,
             submit_block w page])"
    by (intro completes_in_order)
       (simp add: completes_modify completes_blocks completes_resume_block)
  then show "fst (fill_application_form w page applicant_data s) = Inr PyNone"
    unfolding fill_application_form_def by (rule completes_then_ret)
  show "fst (fill_application_form form_page 0 demo_applicant start) = Inr PyNone"
    by (simp add: form_page_run)
  show "filled_count (snd (fill_application_form form_page 0 demo_applicant start)) = 2"
    by (simp add: form_page_run)
qed

text \<open>
  Claim C4. In every form pass, on every page and for every profile, no event is a
  click and no event does anything to the submit button: the pass only asks whether
  the button is visible and reads its text.
\<close>

theorem form_pass_never_submits:
  "\<exists>evs. trace (snd (fill_application_form w page applicant_data s)) = trace s @ evs
         \<and> list_all (\<lambda>e. \<not> is_click e
                          \<and> acted_on e \<noteq> Some (field_locator page ''submit_button'')) evs"
proof -
  from emitsD[OF fill_application_form_ok, of w page applicant_data s]
  obtain evs where
    t: "trace (snd (fill_application_form w page applicant_data s)) = trace s @ evs" and
    ok: "list_all (form_event_ok w page) evs"
    by blast
  from ok have "list_all (\<lambda>e. \<not> is_click e
                          \<and> acted_on e \<noteq> Some (field_locator page ''submit_button'')) evs"
    by (simp add: list_all_iff form_event_ok_def)
  with t show ?thesis by blast
qed

text \<open>The pass on the form page probes the submit button and leaves it alone.\<close>

theorem form_pass_never_submits_witness:
  "list_all (\<lambda>e. \<not> is_click e \<and> acted_on e \<noteq> Some (field_locator 0 ''submit_button''))
     (trace (snd (fill_application_form form_page 0 demo_applicant start)))
   \<and> Is_visible (field_locator 0 ''submit_button'')
       \<in> set (trace (snd (fill_application_form form_page 0 demo_applicant start)))"
proof -
  from form_pass_never_submits [of form_page 0 demo_applicant start]
  have "list_all (\<lambda>e. \<not> is_click e \<and> acted_on e \<noteq> Some (field_locator 0 ''submit_button''))
     (trace (snd (fill_application_form form_page 0 demo_applicant start)))"
    by (auto simp: start_def)
  moreover have "Is_visible (field_locator 0 ''submit_button'')
       \<in> set (trace (snd (fill_application_form form_page 0 demo_applicant start)))"
    by (simp add: form_page_trace_eq form_page_trace_def)
  ultimately show ?thesis by blast
qed

text \<open>
  Claim C3, as amended. For every current date with a month from 1 to 12, whatever
  the form pass writes into the start-date field is the first day of the month two
  months after the current one, printed as day.month.year; if today is March 15, the
  computed start date is May 1 of the same year.
\<close>

theorem start_date_two_months_ahead:
  assumes "1 \<le> month (date_today w)" and "month (date_today w) \<le> 12"
  shows "(\<exists>evs. trace (snd (fill_application_form w page applicant_data s)) = trace s @ evs
           \<and> (\<forall>v. Fill (field_locator page ''start_date'') v \<in> set evs \<longrightarrow>
                 v = strftime_dmy
                       \<lparr>year = year (date_today w) + (month (date_today w) + 1) div 12,
                        month = (month (date_today w) + 1) mod 12 + 1, day = 1\<rparr>))
         \<and> (y \<le> 9999 \<longrightarrow> target_start_date \<lparr>year = y, month = 3, day = 15\<rparr>
                          = Inr \<lparr>year = y, month = 5, day = 1\<rparr>)"
proof
  from emitsD[OF fill_application_form_ok, of w page applicant_data s]
  obtain evs where
    t: "trace (snd (fill_application_form w page applicant_data s)) = trace s @ evs" and
    ok: "list_all (form_event_ok w page) evs"
    by blast
  have "v = strftime_dmy
              \<lparr>year = year (date_today w) + (month (date_today w) + 1) div 12,
               month = (month (date_today w) + 1) mod 12 + 1, day = 1\<rparr>"
    if "Fill (field_locator page ''start_date'') v \<in> set evs" for v
  proof -
    from ok that have "form_event_ok w page (Fill (field_locator page ''start_date'') v)"
      by (simp add: list_all_iff)
    then have "map_sum id strftime_dmy (target_start_date (date_today w)) = Inr v"
      by (simp add: form_event_ok_def start_date_written_def)
    then obtain x where x: "target_start_date (date_today w) = Inr x" "v = strftime_dmy x"
      by (cases "target_start_date (date_today w)") auto
    from target_start_date_value[OF assms x(1)] x(2) show ?thesis by simp
  qed
  with t show "\<exists>evs. trace (snd (fill_application_form w page applicant_data s)) = trace s @ evs
           \<and> (\<forall>v. Fill (field_locator page ''start_date'') v \<in> set evs \<longrightarrow>
                 v = strftime_dmy
                       \<lparr>year = year (date_today w) + (month (date_today w) + 1) div 12,
                        month = (month (date_today w) + 1) mod 12 + 1, day = 1\<rparr>)"
    by blast
  show "y \<le> 9999 \<longrightarrow> target_start_date \<lparr>year = y, month = 3, day = 15\<rparr>
                          = Inr \<lparr>year = y, month = 5, day = 1\<rparr>"
    by (simp add: target_start_date_def plus_one_month_def Let_def days_in_month_def)
qed

text \<open>On 15 March 2024 the form page gets \<open>01.05.2024\<close>.\<close>

theorem start_date_two_months_ahead_witness:
  "1 \<le> month (date_today form_page) \<and> month (date_today form_page) \<le> 12
   \<and> Fill (field_locator 0 ''start_date'') ''01.05.2024''
       \<in> set (trace (snd (fill_application_form form_page 0 demo_applicant start)))
   \<and> ''01.05.2024'' = strftime_dmy \<lparr>year = 2024, month = 5, day = 1\<rparr>
   \<and> target_start_date \<lparr>year = 2024, month = 3, day = 15\<rparr>
       = Inr \<lparr>year = 2024, month = 5, day = 1\<rparr>"
proof -
  have m: "1 \<le> month (date_today form_page)" "month (date_today form_page) \<le> 12"
    by (simp_all add: form_page_def)
  have mem: "Fill (field_locator 0 ''start_date'') ''01.05.2024''
       \<in> set (trace (snd (fill_application_form form_page 0 demo_applicant start)))"
    by (simp add: form_page_trace_eq form_page_trace_def)
  note t = start_date_two_months_ahead [OF m, of 0 demo_applicant start 2024]
  from t obtain evs where
    e: "trace (snd (fill_application_form form_page 0 demo_applicant start)) = trace start @ evs"
    and v: "\<forall>v. Fill (field_locator 0 ''start_date'') v \<in> set evs \<longrightarrow>
              v = strftime_dmy
                    \<lparr>year = year (date_today form_page) + (month (date_today form_page) + 1) div 12,
                     month = (month (date_today form_page) + 1) mod 12 + 1, day = 1\<rparr>"
    by blast
  from e mem have "Fill (field_locator 0 ''start_date'') ''01.05.2024'' \<in> set evs"
    by (simp add: start_def)
  with v have "''01.05.2024'' = strftime_dmy
                    \<lparr>year = year (date_today form_page) + (month (date_today form_page) + 1) div 12,
                     month = (month (date_today form_page) + 1) mod 12 + 1, day = 1\<rparr>"
    by blast
  then have "''01.05.2024'' = strftime_dmy \<lparr>year = 2024, month = 5, day = 1\<rparr>"
    by (simp add: form_page_def)
  moreover from t have "target_start_date \<lparr>year = 2024, month = 3, day = 15\<rparr>
       = Inr \<lparr>year = 2024, month = 5, day = 1\<rparr>"
    by simp
  ultimately show ?thesis using m mem by blast
qed

text \<open>Claim C3 as stated fails in its example: on 15 March the pass writes the first of
  May, not the first of June.\<close>

theorem start_date_june_counterexample:
  "date_today form_page = \<lparr>year = 2024, month = 3, day = 15\<rparr>
   \<and> Fill (field_locator 0 ''start_date'') ''01.05.2024''
       \<in> set (trace (snd (fill_application_form form_page 0 demo_applicant start)))
   \<and> Fill (field_locator 0 ''start_date'') ''01.06.2024''
       \<notin> set (trace (snd (fill_application_form form_page 0 demo_applicant start)))
   \<and> target_start_date \<lparr>year = 2024, month = 3, day = 15\<rparr>
       \<noteq> Inr \<lparr>year = 2024, month = 6, day = 1\<rparr>"
proof (intro conjI)
  show "date_today form_page = \<lparr>year = 2024, month = 3, day = 15\<rparr>"
    by (simp add: form_page_def)
  show "Fill (field_locator 0 ''start_date'') ''01.05.2024''
       \<in> set (trace (snd (fill_application_form form_page 0 demo_applicant start)))"
    by (simp add: form_page_trace_eq form_page_trace_def)
  show "Fill (field_locator 0 ''start_date'') ''01.06.2024''
       \<notin> set (trace (snd (fill_application_form form_page 0 demo_applicant start)))"
    by (simp add: form_page_trace_eq form_page_trace_def)
  show "target_start_date \<lparr>year = 2024, month = 3, day = 15\<rparr>
       \<noteq> Inr \<lparr>year = 2024, month = 6, day = 1\<rparr>"
    by (simp add: march_15)
qed

text \<open>
  Claim C5 fails on the code. A control written \<open><input required>\<close> has the attribute with
  the empty string as its value, which the truth test takes for absent: the result is
  \<open>False\<close>. A control whose attribute reads raise makes the function raise, because the
  log line after the \<open>try\<close> statement reads the name again; where that read returns
  nothing after an early failure, the unassigned \<open>input_id\<close> raises instead.
\<close>

theorem is_field_mandatory_misses_and_raises:
  "fst (is_field_mandatory required_input the_input start) = Inr False
   \<and> fst (is_field_mandatory required_valued_input the_input start) = Inr True
   \<and> fst (is_field_mandatory detached_input the_input start) = Inl PlaywrightTimeoutError
   \<and> fst (is_field_mandatory flaky_input the_input start) = Inl (UnboundLocalError ''input_id'')"
  by (simp add: run_simps call_defs is_field_mandatory_def mandatory_try_def after_input_id_def
        id_label_check_def name_label_check_def ancestor_label_check_def visible_asterisk_def
        required_input_def required_valued_input_def detached_input_def flaky_input_def
        bare_world_def the_input_def truthy_def log_event_def start_def Let_def label_for_def)

end
